theory Spec2Isabelle
  imports Complex_Main "HOL-Library.Code_Target_Nat"
begin

section \<open>Python values\<close>

text \<open>
  A Python \<open>str\<close> is a sequence of Unicode code points, and \<open>len\<close> counts code
  points; a string is therefore a list of code point numbers.
\<close>

type_synonym pystr = "nat list"

definition lit :: "string \<Rightarrow> pystr" where
  "lit s = map of_char s"

text \<open>
  The exceptions that the two scripts can raise or catch. \<open>RequestException\<close> stands for
  any instance of \<open>requests.exceptions.RequestException\<close> other than the two named ones:
  \<open>HTTPError\<close> (raised by \<open>raise_for_status\<close>, with the status code) and
  \<open>InvalidJSONError\<close> (what \<open>Response.json\<close> raises in requests 2.27 and later; earlier
  versions raise a \<open>ValueError\<close>). \<open>RetryError\<close> is tenacity's, wrapping the exception of
  the last attempt.
\<close>

datatype exn =
    RequestException
  | HTTPError nat
  | InvalidJSONError
  | RetryError exn
  | EnvironmentError
  | OSError
  | UnicodeEncodeError
  | OverflowError
  | TypeError
  | ValueError
  | AttributeError
  | KeyError
  | IndexError

fun is_request_exception :: "exn \<Rightarrow> bool" where
  "is_request_exception RequestException = True"
| "is_request_exception (HTTPError c) = True"
| "is_request_exception InvalidJSONError = True"
| "is_request_exception e = False"

text \<open>
  What \<open>json.load\<close> and \<open>Response.json\<close> produce: \<open>None\<close>, a bool, a number, a
  string, a list or a dict. \<open>JObj\<close> holds the items of the dict (keys distinct, as in a
  dict). A number is a rational: an \<open>int\<close> or a finite \<open>float\<close>.
\<close>

datatype json =
    JNull
  | JBool bool
  | JNum rat
  | JStr pystr
  | JArr "json list"
  | JObj "(pystr \<times> json) list"

text \<open>Python's truth value of such a value (\<open>if x\<close>, \<open>not x\<close>, \<open>x or y\<close>).\<close>

fun truthy :: "json \<Rightarrow> bool" where
  "truthy JNull = False"
| "truthy (JBool b) = b"
| "truthy (JNum n) = (n \<noteq> 0)"
| "truthy (JStr s) = (s \<noteq> [])"
| "truthy (JArr xs) = (xs \<noteq> [])"
| "truthy (JObj kvs) = (kvs \<noteq> [])"

definition py_or :: "json \<Rightarrow> json \<Rightarrow> json" where
  "py_or a b = (if truthy a then a else b)"

text \<open>\<open>d.get(k)\<close>: the value under the key, \<open>None\<close> when the key is missing.\<close>

definition dict_get :: "(pystr \<times> json) list \<Rightarrow> pystr \<Rightarrow> json" where
  "dict_get kvs k = (case map_of kvs k of None \<Rightarrow> JNull | Some v \<Rightarrow> v)"

text \<open>
  \<open>x[0]\<close>: the first element of a list, the first character of a string (a string of
  length one); a dict loaded from JSON has only string keys, so \<open>x[0]\<close> raises
  \<open>KeyError\<close>; \<open>None\<close>, bools and numbers are not subscriptable.
\<close>

fun subscript0 :: "json \<Rightarrow> exn + json" where
  "subscript0 (JArr (x # xs)) = Inr x"
| "subscript0 (JArr []) = Inl IndexError"
| "subscript0 (JStr (c # cs)) = Inr (JStr [c])"
| "subscript0 (JStr []) = Inl IndexError"
| "subscript0 (JObj kvs) = Inl KeyError"
| "subscript0 v = Inl TypeError"

section \<open>The token budget\<close>

text \<open>
  The values \<open>kb\<close> can take. \<open>PInt\<close> is an \<open>int\<close> (or a \<open>bool\<close>, which is one);
  \<open>PFloat\<close> is a finite \<open>float\<close>, given by the rational it denotes; \<open>PNan\<close> and
  \<open>PInf\<close> are the float NaN and the infinities; \<open>PNonNumeric\<close> is any value on which
  \<open>kb * 1024 // 4\<close> raises \<open>TypeError\<close> (\<open>None\<close>, a string, a list, a dict).
\<close>

datatype pyval = PInt int | PFloat rat | PNan | PInf | PNonNumeric

text \<open>
  \<open>int(kb * 1024 // 4)\<close>. On an \<open>int\<close>, \<open>//\<close> is floor division, as \<open>div\<close> is.
  On a float, the product with 1024 is exact (a power of two) unless it overflows, which
  it does from \<open>2 ^ 1014\<close> on: the product is then an infinity, \<open>inf // 4\<close> is NaN, and
  \<open>int\<close> of a NaN raises \<open>ValueError\<close>. Below that, \<open>x // 4\<close> is the floor of the
  quotient, as a float, and \<open>int\<close> reads it.
\<close>

fun tokens_arith :: "pyval \<Rightarrow> exn + int" where
  "tokens_arith (PInt k) = Inr (k * 1024 div 4)"
| "tokens_arith (PFloat q) =
     (if 2 ^ 1014 \<le> \<bar>q\<bar> then Inl ValueError else Inr \<lfloor>q * 1024 / 4\<rfloor>)"
| "tokens_arith PNan = Inl ValueError"
| "tokens_arith PInf = Inl ValueError"
| "tokens_arith PNonNumeric = Inl TypeError"

text \<open>
  \<open>_tokens_for_kb\<close> of GenerateLocaleTestData.py: the arithmetic under a bare
  \<open>except\<close>, which returns 256.
\<close>

definition tokens_for_kb :: "pyval \<Rightarrow> exn + int" where
  "tokens_for_kb kb =
     (case tokens_arith kb of Inr n \<Rightarrow> Inr (max 32 n) | Inl e \<Rightarrow> Inr 256)"

text \<open>\<open>_tokens_for_kb\<close> of TestcaseTokens.py: the same arithmetic, unguarded.\<close>

definition tokens_for_kb_rate :: "pyval \<Rightarrow> exn + int" where
  "tokens_for_kb_rate kb =
     (case tokens_arith kb of Inr n \<Rightarrow> Inr (max 32 n) | Inl e \<Rightarrow> Inl e)"

section \<open>Sanitization\<close>

text \<open>The character class \<open>[\x00-\x08\x0b\x0c\x0e-\x1f]\<close> of \<open>sanitize_text\<close>.\<close>

definition is_control :: "nat \<Rightarrow> bool" where
  "is_control c = (c \<le> 8 \<or> c = 11 \<or> c = 12 \<or> (14 \<le> c \<and> c \<le> 31))"

text \<open>
  \<open>s[:n]\<close>: the first \<open>n\<close> elements, and for a negative \<open>n\<close> all but the last
  \<open>-n\<close>.
\<close>

definition py_prefix :: "int \<Rightarrow> 'a list \<Rightarrow> 'a list" where
  "py_prefix n s = (if 0 \<le> n then take (nat n) s else take (nat (int (length s) + n)) s)"

text \<open>The marker \<open>"\n\n...[truncated]"\<close>.\<close>

definition truncation_marker :: pystr where
  "truncation_marker = [10, 10] @ lit ''...[truncated]''"

definition sanitize_text :: "pystr \<Rightarrow> int \<Rightarrow> pystr" where
  "sanitize_text s max_len =
     (if s = [] then s
      else let s1 = filter (\<lambda>c. \<not> is_control c) s
           in if int (length s1) > max_len then py_prefix max_len s1 @ truncation_marker
              else s1)"

section \<open>The HTTP transport and the retry envelope\<close>

text \<open>
  A \<open>float\<close>: finite (the rational it denotes), NaN, or an infinity. \<open>float\<close> of a
  text gives any of them (\<open>float("nan")\<close>, \<open>float("-inf")\<close>).
\<close>

datatype pyfloat = Finite rat | NaN | PosInf | NegInf

text \<open>\<open>x <= t\<close> for a float \<open>x\<close> and a finite number \<open>t\<close>: false on a NaN.\<close>

fun float_le :: "pyfloat \<Rightarrow> rat \<Rightarrow> bool" where
  "float_le (Finite v) t = (v \<le> t)"
| "float_le NaN t = False"
| "float_le PosInf t = False"
| "float_le NegInf t = True"

text \<open>
  \<open>time.sleep(x)\<close> returns, or raises: \<open>ValueError\<close> on a NaN and on a negative
  length, \<open>OverflowError\<close> on an infinity and on a length whose nanoseconds do not fit
  the 64-bit signed timestamp (the conversion comes first).
\<close>

fun time_sleep :: "pyfloat \<Rightarrow> exn option" where
  "time_sleep (Finite q) =
     (if 2 ^ 63 \<le> \<bar>q\<bar> * 10 ^ 9 then Some OverflowError
      else if q < 0 then Some ValueError else None)"
| "time_sleep NaN = Some ValueError"
| "time_sleep PosInf = Some OverflowError"
| "time_sleep NegInf = Some OverflowError"

text \<open>
  A header that the code reads with \<open>float\<close>: missing or empty (\<open>if h\<close> is false), a
  text that \<open>float\<close> parses, or a text on which \<open>float\<close> raises \<open>ValueError\<close>.
\<close>

datatype header = NoValue | FloatText pyfloat | NotFloat

text \<open>
  What the code reads of a \<open>requests.Response\<close>: \<open>r.status_code\<close>, \<open>r.json()\<close> (the
  value, or the exception it raises), \<open>r.text\<close>, the headers
  \<open>x-ratelimit-remaining-tokens\<close> and \<open>retry-after\<close>, and the number \<open>N\<close> of the
  first \<open>try again in Nms\<close> in the lower-cased body, if there is one. The header
  \<open>x-ratelimit-reset-tokens\<close> is left out: it is read under a \<open>try\<close> that swallows
  every exception, and only sets the length of a sleep inside that \<open>try\<close>.

  The sleeps between iterations take the throttle the caller gave, which is taken to be a
  valid length (finite and not negative), and standard output is taken to accept every
  printed text: those sleeps and the prints return and are not part of the model. The
  sleep whose length comes from the response is.
\<close>

record response =
  status_code :: nat
  json_body :: "exn + json"
  body_text :: pystr
  remaining_tokens :: header
  retry_after :: header
  retry_hint_ms :: "nat option"

text \<open>One call of \<open>requests.post\<close>: it raises a \<open>RequestException\<close>, or returns.\<close>

datatype post_result = PostRaises | PostReturns response

text \<open>\<open>r.raise_for_status()\<close> raises on the 4xx and 5xx codes only.\<close>

definition raise_for_status :: "response \<Rightarrow> exn option" where
  "raise_for_status r =
     (if 400 \<le> status_code r \<and> status_code r < 600 then Some (HTTPError (status_code r))
      else None)"

text \<open>
  One attempt of \<open>call_groq\<close> (GenerateLocaleTestData.py, lines 59-66), given what
  \<open>requests.post\<close> did.
\<close>

definition call_groq_attempt :: "post_result \<Rightarrow> exn + json" where
  "call_groq_attempt pr =
     (case pr of
        PostRaises \<Rightarrow> Inl RequestException
      | PostReturns r \<Rightarrow>
          (case (if \<not> (200 \<le> status_code r \<and> status_code r < 300) then raise_for_status r
                 else None) of
             Some e \<Rightarrow> Inl e
           | None \<Rightarrow> json_body r))"

text \<open>
  \<open>_sleep_from_retry_headers\<close> (TestcaseTokens.py, lines 24-43): the \<open>retry-after\<close>
  header when \<open>float\<close> reads it; else the hint of the body in seconds plus 0.05 (taken
  without rounding), unless the number is too large for a float (from
  \<open>2 ^ 1024 - 2 ^ 970\<close> on, the division raises and the bare \<open>except\<close> passes); else
  one second.
\<close>

definition sleep_from_retry_headers :: "response \<Rightarrow> pyfloat" where
  "sleep_from_retry_headers r =
     (case retry_after r of
        FloatText x \<Rightarrow> x
      | _ \<Rightarrow>
          (case retry_hint_ms r of
             Some n \<Rightarrow>
               if n < 2 ^ 1024 - 2 ^ 970 then Finite (of_nat n / 1000 + 1 / 20) else Finite 1
           | None \<Rightarrow> Finite 1))"

text \<open>
  One attempt of \<open>call_groq_once\<close> (TestcaseTokens.py, lines 47-78). On a 429 the code
  sleeps first (lines 63-66), for the time the response gives, and then raises for the
  status; an exception of that sleep leaves the attempt in place of the \<open>HTTPError\<close>.
\<close>

definition call_groq_once_attempt :: "post_result \<Rightarrow> exn + response" where
  "call_groq_once_attempt pr =
     (case pr of
        PostRaises \<Rightarrow> Inl RequestException
      | PostReturns r \<Rightarrow>
          (case (if status_code r = 429 then
                   (case time_sleep (sleep_from_retry_headers r) of
                      Some e \<Rightarrow> Some e
                    | None \<Rightarrow> raise_for_status r)
                 else None) of
             Some e \<Rightarrow> Inl e
           | None \<Rightarrow>
               (case (if \<not> (200 \<le> status_code r \<and> status_code r < 300)
                      then raise_for_status r else None) of
                  Some e \<Rightarrow> Inl e
                | None \<Rightarrow> Inr r)))"

text \<open>
  tenacity's \<open>@retry(stop=stop_after_attempt(n), retry=retry_if_exception_type(RequestException))\<close>.
  The transport gives the result of the \<open>p\<close>-th call of \<open>requests.post\<close>, and the second
  component of the result is the number of calls made so far. An attempt that returns ends
  the loop; so does one that raises anything but a \<open>RequestException\<close>, which propagates;
  after a \<open>RequestException\<close> the loop goes on while attempts are left (\<open>left\<close> of them)
  and raises \<open>RetryError\<close> when none is.
\<close>

fun tenacity_retry ::
  "nat \<Rightarrow> (post_result \<Rightarrow> exn + 'a) \<Rightarrow> (nat \<Rightarrow> post_result) \<Rightarrow> nat \<Rightarrow> (exn + 'a) \<times> nat" where
  "tenacity_retry 0 attempt transport p =
     (case attempt (transport p) of
        Inr v \<Rightarrow> (Inr v, Suc p)
      | Inl e \<Rightarrow> if is_request_exception e then (Inl (RetryError e), Suc p) else (Inl e, Suc p))"
| "tenacity_retry (Suc left) attempt transport p =
     (case attempt (transport p) of
        Inr v \<Rightarrow> (Inr v, Suc p)
      | Inl e \<Rightarrow> if is_request_exception e then tenacity_retry left attempt transport (Suc p)
                 else (Inl e, Suc p))"

definition call_groq_max_attempts :: nat where
  "call_groq_max_attempts = 3"

definition call_groq_once_max_attempts :: nat where
  "call_groq_once_max_attempts = 4"

definition call_groq :: "(nat \<Rightarrow> post_result) \<Rightarrow> nat \<Rightarrow> (exn + json) \<times> nat" where
  "call_groq = tenacity_retry (call_groq_max_attempts - 1) call_groq_attempt"

definition call_groq_once :: "(nat \<Rightarrow> post_result) \<Rightarrow> nat \<Rightarrow> (exn + response) \<times> nat" where
  "call_groq_once = tenacity_retry (call_groq_once_max_attempts - 1) call_groq_once_attempt"

section \<open>Result records and the output file\<close>

text \<open>
  The dicts that the loops append. Every one has the keys \<open>seed\<close> and \<open>visitor_message\<close>
  (\<open>JNull\<close> is Python's \<open>None\<close>); each other key is \<open>None\<close> here when the dict does not
  have it. \<open>error\<close> holds the exception whose \<open>str\<close> the code stores.
\<close>

record gen_result =
  seed :: pystr
  visitor_message :: json
  error :: "exn option"
  preview :: "pystr option"
  locale_code :: "pystr option"
  model :: "pystr option"
  tokens_requested :: "int option"

text \<open>
  The output file: absent, holding a JSON list of records, or present with content that
  the read-and-merge of \<open>generate_for_locale\<close> fails on (an empty file, a cut file, text
  that is not JSON, a JSON value that is not a list). \<open>writable\<close> says whether
  \<open>open(out_file, "w")\<close> succeeds, \<open>room\<close> whether the device and the interpreter
  then let a dump of encodable text run to its end.
\<close>

datatype stored = Absent | Stored "gen_result list" | Unloadable

record disk =
  content :: stored
  writable :: bool
  room :: bool

text \<open>
  The file is opened with \<open>encoding="utf-8"\<close> and dumped with \<open>ensure_ascii=False\<close>,
  so every string is encoded as it is, and a surrogate code point (U+D800 to U+DFFF, which
  \<open>json\<close> reads from an escape such as \<open>"\ud83d"\<close>) raises \<open>UnicodeEncodeError\<close>.
  The text of an exception is taken to hold none.
\<close>

definition encodable_str :: "pystr \<Rightarrow> bool" where
  "encodable_str s = list_all (\<lambda>c. c < 55296 \<or> 57343 < c) s"

fun encodable :: "json \<Rightarrow> bool" where
  "encodable (JStr s) = encodable_str s"
| "encodable (JArr xs) = list_all encodable xs"
| "encodable (JObj kvs) = list_all (\<lambda>kv. encodable_str (fst kv) \<and> encodable (snd kv)) kvs"
| "encodable v = True"

definition encodable_opt :: "pystr option \<Rightarrow> bool" where
  "encodable_opt v = (case v of None \<Rightarrow> True | Some s \<Rightarrow> encodable_str s)"

definition encodable_record :: "gen_result \<Rightarrow> bool" where
  "encodable_record x =
     (encodable_str (seed x) \<and> encodable (visitor_message x) \<and> encodable_opt (preview x)
      \<and> encodable_opt (locale_code x) \<and> encodable_opt (model x))"

text \<open>
  \<open>with open(out_file, "w") as f: json.dump(recs, f, ensure_ascii=False, indent=2)\<close>:
  the exception raised, if any, and the file afterwards. Where the file cannot be opened
  it is untouched. Once opened it is empty, and a dump that fails, on a string that cannot
  be encoded or on the device, leaves it cut short of the closing bracket.
\<close>

definition open_w_dump :: "disk \<Rightarrow> gen_result list \<Rightarrow> exn option \<times> disk" where
  "open_w_dump d recs =
     (if \<not> writable d then (Some OSError, d)
      else if \<not> list_all encodable_record recs
        then (Some UnicodeEncodeError, d\<lparr>content := Unloadable\<rparr>)
      else if \<not> room d then (Some OSError, d\<lparr>content := Unloadable\<rparr>)
      else (None, d\<lparr>content := Stored recs\<rparr>))"

text \<open>
  \<open>existing = []\<close>, and \<open>json.load\<close> of the file when \<open>os.path.exists\<close>
  (GenerateLocaleTestData.py, lines 153-156).
\<close>

definition load_existing :: "disk \<Rightarrow> exn + gen_result list" where
  "load_existing d =
     (case content d of Absent \<Rightarrow> Inr [] | Stored xs \<Rightarrow> Inr xs | Unloadable \<Rightarrow> Inl ValueError)"

text \<open>
  The write of \<open>generate_for_locale\<close> (lines 152-162): read, concatenate, write, all under
  one \<open>try\<close> whose handler prints the exception, which is the first component here.
\<close>

definition write_merged :: "disk \<Rightarrow> gen_result list \<Rightarrow> exn option \<times> disk" where
  "write_merged d out =
     (case load_existing d of
        Inl e \<Rightarrow> (Some e, d)
      | Inr existing \<Rightarrow> open_w_dump d (existing @ out))"

section \<open>The loops\<close>

text \<open>
  What the environment supplies: the result of the \<open>n\<close>-th call of \<open>requests.post\<close>;
  \<open>json.dumps\<close> and \<open>str\<close> on a parsed body; and the content of the user message that
  \<open>build_prompt\<close> returns for a seed, a locale, a language label and a size at the
  \<open>n\<close>-th iteration (the text holds a fresh \<open>uuid4\<close>).
\<close>

record env =
  transport :: "nat \<Rightarrow> post_result"
  json_dumps :: "json \<Rightarrow> pystr"
  py_str :: "json \<Rightarrow> pystr"
  user_content :: "pystr \<Rightarrow> pystr \<Rightarrow> pystr \<Rightarrow> pyval \<Rightarrow> nat \<Rightarrow> pystr"

text \<open>
  How one iteration of the loop body ends: it falls through or \<open>continue\<close>s, it
  \<open>return\<close>s from the function, or an exception leaves it.
\<close>

datatype signal = Proceed | StopEarly | Raise exn

text \<open>
  \<open>for s in seeds: for i in range(per_seed): body\<close>, with \<open>out\<close> and the count of
  \<open>requests.post\<close> calls as the state. \<open>iterations\<close> is the sequence of values that
  \<open>s\<close> takes; \<open>range\<close> of a negative number is empty.
\<close>

definition iterations :: "pystr list \<Rightarrow> int \<Rightarrow> pystr list" where
  "iterations seeds per_seed = concat (map (\<lambda>s. replicate (nat per_seed) s) seeds)"

fun for_each ::
  "(pystr \<Rightarrow> gen_result list \<times> nat \<Rightarrow> signal \<times> gen_result list \<times> nat) \<Rightarrow> pystr list
   \<Rightarrow> gen_result list \<times> nat \<Rightarrow> signal \<times> gen_result list \<times> nat" where
  "for_each body [] st = (Proceed, st)"
| "for_each body (s # rest) st =
     (case body s st of
        (Proceed, st') \<Rightarrow> for_each body rest st'
      | (StopEarly, st') \<Rightarrow> (StopEarly, st')
      | (Raise e, st') \<Rightarrow> (Raise e, st'))"

subsection \<open>TestcaseTokens.py\<close>

text \<open>The parse of lines 123-134, on the value of \<open>r.json()\<close>.\<close>

definition parse_rate_safe :: "(json \<Rightarrow> pystr) \<Rightarrow> json \<Rightarrow> exn + json" where
  "parse_rate_safe dumps resp =
     (case resp of
        JObj d \<Rightarrow>
          (let text0 = dict_get d (lit ''output_text'') in
           (case (if \<not> truthy text0 then
                    (let choices = py_or (dict_get d (lit ''choices'')) (JArr []) in
                     if truthy choices then
                       (case subscript0 choices of
                          Inl e \<Rightarrow> Inl e
                        | Inr c0 \<Rightarrow>
                            (let msg = (case c0 of JObj m \<Rightarrow> dict_get m (lit ''message'')
                                        | _ \<Rightarrow> c0) in
                             (case msg of
                                JObj m \<Rightarrow>
                                  Inr (py_or (dict_get m (lit ''content''))
                                             (dict_get m (lit ''text'')))
                              | JStr s \<Rightarrow> Inr msg
                              | _ \<Rightarrow> Inr text0)))
                     else Inr text0)
                  else Inr text0) of
              Inl e \<Rightarrow> Inl e
            | Inr text1 \<Rightarrow> Inr (if \<not> truthy text1 then JStr (dumps resp) else text1)))
      | _ \<Rightarrow> Inl AttributeError)"

definition error_record :: "pystr \<Rightarrow> exn \<Rightarrow> gen_result" where
  "error_record s e =
     \<lparr>seed = s, visitor_message = JNull, error = Some e, preview = None,
      locale_code = None, model = None, tokens_requested = None\<rparr>"

definition message_record :: "pystr \<Rightarrow> json \<Rightarrow> gen_result" where
  "message_record s v =
     \<lparr>seed = s, visitor_message = v, error = None, preview = None,
      locale_code = None, model = None, tokens_requested = None\<rparr>"

text \<open>
  The body of the loop of \<open>generate_bulk_rate_safe\<close> (lines 93-163). Where
  \<open>r.json()\<close> raises (lines 106-120) the remaining-token header is read with an unguarded
  \<open>float\<close> and a value at or below the threshold returns from the function. Where the
  body parses (lines 122-163) the header is read under a \<open>try\<close> and a low value only
  makes the code sleep, so that path always goes on to the next iteration.
\<close>

definition rate_safe_iteration ::
  "env \<Rightarrow> rat \<Rightarrow> pystr \<Rightarrow> gen_result list \<times> nat \<Rightarrow> signal \<times> gen_result list \<times> nat" where
  "rate_safe_iteration ev safety_token_threshold s st =
     (case st of (out, p) \<Rightarrow>
       (case call_groq_once (transport ev) p of
          (Inl e, p') \<Rightarrow> (Proceed, out @ [error_record s e], p')
        | (Inr r, p') \<Rightarrow>
            (case json_body r of
               Inl e \<Rightarrow>
                 (let out' = out @ [message_record s (JStr (body_text r))] in
                  (case remaining_tokens r of
                     NoValue \<Rightarrow> (Proceed, out', p')
                   | NotFloat \<Rightarrow> (Raise ValueError, out', p')
                   | FloatText v \<Rightarrow>
                       if float_le v safety_token_threshold then (StopEarly, out', p')
                       else (Proceed, out', p')))
             | Inr resp \<Rightarrow>
                 (case parse_rate_safe (json_dumps ev) resp of
                    Inl e \<Rightarrow> (Raise e, out, p')
                  | Inr v \<Rightarrow> (Proceed, out @ [message_record s v], p')))))"

text \<open>
  What a call of a generation function leaves: the value it returns or the exception that
  leaves it, the list \<open>out\<close> at that moment, the number of \<open>requests.post\<close> calls it
  made, the output file, whether it returned from inside the loop, and the exception of
  its access to the output file, if that raised one.
\<close>

record 'a run =
  returned :: "exn + 'a"
  produced :: "gen_result list"
  posts :: nat
  disk_after :: disk
  early_stop :: bool
  write_error :: "exn option"

text \<open>
  \<open>generate_bulk_rate_safe\<close> (lines 80-168). Line 87 computes the token budget before
  the loop, unguarded. Both exits (lines 116-118 and 165-168) open the file for writing,
  dump \<open>out\<close> alone and return the path.
\<close>

definition generate_bulk_rate_safe ::
  "env \<Rightarrow> pystr list \<Rightarrow> int \<Rightarrow> pyval \<Rightarrow> pystr \<Rightarrow> rat \<Rightarrow> disk \<Rightarrow> pystr run" where
  "generate_bulk_rate_safe ev seeds per_seed kb out_file safety_token_threshold d =
     (case tokens_for_kb_rate kb of
        Inl e \<Rightarrow>
          \<lparr>returned = Inl e, produced = [], posts = 0, disk_after = d, early_stop = False,
           write_error = None\<rparr>
      | Inr tokens_per_req \<Rightarrow>
          (case for_each (rate_safe_iteration ev safety_token_threshold)
                  (iterations seeds per_seed) ([], 0) of
             (Raise e, out, p) \<Rightarrow>
               \<lparr>returned = Inl e, produced = out, posts = p, disk_after = d, early_stop = False,
                write_error = None\<rparr>
           | (StopEarly, out, p) \<Rightarrow>
               (case open_w_dump d out of
                  (Some e, d') \<Rightarrow>
                    \<lparr>returned = Inl e, produced = out, posts = p, disk_after = d',
                     early_stop = True, write_error = Some e\<rparr>
                | (None, d') \<Rightarrow>
                    \<lparr>returned = Inr out_file, produced = out, posts = p, disk_after = d',
                     early_stop = True, write_error = None\<rparr>)
           | (Proceed, out, p) \<Rightarrow>
               (case open_w_dump d out of
                  (Some e, d') \<Rightarrow>
                    \<lparr>returned = Inl e, produced = out, posts = p, disk_after = d',
                     early_stop = False, write_error = Some e\<rparr>
                | (None, d') \<Rightarrow>
                    \<lparr>returned = Inr out_file, produced = out, posts = p, disk_after = d',
                     early_stop = False, write_error = None\<rparr>)))"

subsection \<open>GenerateLocaleTestData.py\<close>

definition LOCALE_TO_LANGUAGE :: "(pystr \<times> pystr) list" where
  "LOCALE_TO_LANGUAGE =
     [(lit ''en-US'', lit ''English (United States)''),
      (lit ''en-GB'', lit ''English (UK)''),
      (lit ''it-IT'', lit ''Italian''),
      (lit ''es-ES'', lit ''Spanish'')]"

text \<open>
  \<open>sanitize_text(text)\<close> on the value the parse found, with the default maximum: a
  false value is returned as it is, and \<open>re.sub\<close> raises \<open>TypeError\<close> on a true value
  that is not a string.
\<close>

definition sanitize_value :: "json \<Rightarrow> exn + json" where
  "sanitize_value v =
     (if \<not> truthy v then Inr v
      else (case v of JStr s \<Rightarrow> Inr (JStr (sanitize_text s 100000)) | _ \<Rightarrow> Inl TypeError))"

text \<open>The parse of lines 126-140, on the value that \<open>call_groq\<close> returned.\<close>

definition parse_locale :: "(json \<Rightarrow> pystr) \<Rightarrow> json \<Rightarrow> exn + json" where
  "parse_locale to_str resp =
     (case (case resp of
              JObj d \<Rightarrow>
                (let text0 = dict_get d (lit ''output_text'') in
                 if \<not> truthy text0 then
                   (let choices = py_or (dict_get d (lit ''choices'')) (JArr []) in
                    if truthy choices then
                      (case subscript0 choices of
                         Inl e \<Rightarrow> Inl e
                       | Inr first \<Rightarrow>
                           (case first of
                              JObj f \<Rightarrow>
                                (case py_or (dict_get f (lit ''message'')) (JObj []) of
                                   JObj m \<Rightarrow>
                                     Inr (py_or (dict_get m (lit ''content''))
                                                (dict_get m (lit ''text'')))
                                 | _ \<Rightarrow> Inl AttributeError)
                            | JStr s \<Rightarrow> Inr first
                            | _ \<Rightarrow> Inr text0))
                    else Inr text0)
                 else Inr text0)
            | _ \<Rightarrow> Inr JNull) of
        Inl e \<Rightarrow> Inl e
      | Inr text1 \<Rightarrow>
          sanitize_value (if \<not> truthy text1 then JStr (take 200000 (to_str resp)) else text1))"

definition preview_record :: "pystr \<Rightarrow> pystr \<Rightarrow> pystr \<Rightarrow> gen_result" where
  "preview_record s pv loc =
     \<lparr>seed = s, visitor_message = JNull, error = None, preview = Some pv,
      locale_code = Some loc, model = None, tokens_requested = None\<rparr>"

definition locale_error_record :: "pystr \<Rightarrow> exn \<Rightarrow> pystr \<Rightarrow> gen_result" where
  "locale_error_record s e loc =
     \<lparr>seed = s, visitor_message = JNull, error = Some e, preview = None,
      locale_code = Some loc, model = None, tokens_requested = None\<rparr>"

definition locale_message_record ::
  "pystr \<Rightarrow> json \<Rightarrow> pystr \<Rightarrow> pystr \<Rightarrow> int \<Rightarrow> gen_result" where
  "locale_message_record s v loc mdl tokens =
     \<lparr>seed = s, visitor_message = v, error = None, preview = None,
      locale_code = Some loc, model = Some mdl, tokens_requested = Some tokens\<rparr>"

text \<open>
  The body of the loop of \<open>generate_for_locale\<close> (lines 107-150). The index of the
  iteration is the length of \<open>out\<close>, since every iteration that ends appends one record.
\<close>

definition locale_iteration ::
  "env \<Rightarrow> pystr \<Rightarrow> pystr \<Rightarrow> pyval \<Rightarrow> pystr \<Rightarrow> int \<Rightarrow> bool \<Rightarrow> pystr
   \<Rightarrow> gen_result list \<times> nat \<Rightarrow> signal \<times> gen_result list \<times> nat" where
  "locale_iteration ev loc language_label kb mdl tokens dry_run s st =
     (case st of (out, p) \<Rightarrow>
       (let prompt = user_content ev s loc language_label kb (length out) in
        if dry_run then (Proceed, out @ [preview_record s (take 800 prompt) loc], p)
        else
          (case call_groq (transport ev) p of
             (Inl e, p') \<Rightarrow> (Proceed, out @ [locale_error_record s e loc], p')
           | (Inr resp, p') \<Rightarrow>
               (case parse_locale (py_str ev) resp of
                  Inl e \<Rightarrow> (Raise e, out, p')
                | Inr v \<Rightarrow>
                    (Proceed, out @ [locale_message_record s v loc mdl tokens], p')))))"

text \<open>
  \<open>generate_for_locale\<close> (lines 98-163): the label, the token budget, the loop, the
  guarded write, and \<open>return out\<close>. The body of this loop has no \<open>return\<close>, so the
  case \<open>StopEarly\<close> never arises (lemma \<open>locale_loop_never_stops\<close>).
\<close>

definition generate_for_locale ::
  "env \<Rightarrow> pystr \<Rightarrow> pystr list \<Rightarrow> int \<Rightarrow> pyval \<Rightarrow> pystr \<Rightarrow> bool \<Rightarrow> disk
   \<Rightarrow> gen_result list run" where
  "generate_for_locale ev loc seeds per_seed kb mdl dry_run d =
     (let language_label = (case map_of LOCALE_TO_LANGUAGE loc of Some l \<Rightarrow> l | None \<Rightarrow> loc) in
      (case tokens_for_kb kb of
         Inl e \<Rightarrow>
           \<lparr>returned = Inl e, produced = [], posts = 0, disk_after = d, early_stop = False,
            write_error = None\<rparr>
       | Inr tokens \<Rightarrow>
           (case for_each (locale_iteration ev loc language_label kb mdl tokens dry_run)
                   (iterations seeds per_seed) ([], 0) of
              (Raise e, out, p) \<Rightarrow>
                \<lparr>returned = Inl e, produced = out, posts = p, disk_after = d,
                 early_stop = False, write_error = None\<rparr>
            | (StopEarly, out, p) \<Rightarrow>
                \<lparr>returned = Inr out, produced = out, posts = p,
                 disk_after = snd (write_merged d out), early_stop = True,
                 write_error = fst (write_merged d out)\<rparr>
            | (Proceed, out, p) \<Rightarrow>
                \<lparr>returned = Inr out, produced = out, posts = p,
                 disk_after = snd (write_merged d out), early_stop = False,
                 write_error = fst (write_merged d out)\<rparr>)))"

section \<open>The scripts\<close>

text \<open>
  The environment variables after \<open>load_dotenv()\<close>: \<open>os.getenv\<close> gives \<open>None\<close> for a
  variable that is not set.
\<close>

record settings =
  GROQ_API_KEY :: "pystr option"
  GROQ_API_URL :: "pystr option"

text \<open>
  The module-level code of GenerateLocaleTestData.py (lines 19-33): the key is checked
  with \<open>not GROQ_API_KEY\<close>, the URL is read and printed only.
\<close>

definition import_GenerateLocaleTestData :: "settings \<Rightarrow> exn + unit" where
  "import_GenerateLocaleTestData cfg =
     (case GROQ_API_KEY cfg of
        None \<Rightarrow> Inl EnvironmentError
      | Some k \<Rightarrow> if k = [] then Inl EnvironmentError else Inr ())"

text \<open>The module-level code of TestcaseTokens.py (lines 6-16) checks neither.\<close>

definition import_TestcaseTokens :: "settings \<Rightarrow> exn + unit" where
  "import_TestcaseTokens cfg = Inr ()"

text \<open>
  \<open>requests.post(GROQ_API_URL, ...)\<close>: with the URL \<open>None\<close> requests raises
  \<open>MissingSchema\<close>, a \<open>RequestException\<close>, before anything is sent.
\<close>

definition requests_post :: "settings \<Rightarrow> (nat \<Rightarrow> post_result) \<Rightarrow> nat \<Rightarrow> post_result" where
  "requests_post cfg network n = (case GROQ_API_URL cfg of None \<Rightarrow> PostRaises | Some u \<Rightarrow> network n)"

text \<open>
  GenerateLocaleTestData.py run as a script: the module-level code, then
  \<open>parse_args_and_run\<close> with the arguments of the command line.
\<close>

definition main_GenerateLocaleTestData ::
  "settings \<Rightarrow> env \<Rightarrow> pystr \<Rightarrow> pystr list \<Rightarrow> int \<Rightarrow> pyval \<Rightarrow> pystr \<Rightarrow> bool \<Rightarrow> disk
   \<Rightarrow> gen_result list run" where
  "main_GenerateLocaleTestData cfg ev loc seeds per_seed kb mdl dry_run d =
     (case import_GenerateLocaleTestData cfg of
        Inl e \<Rightarrow>
          \<lparr>returned = Inl e, produced = [], posts = 0, disk_after = d, early_stop = False,
           write_error = None\<rparr>
      | Inr u \<Rightarrow>
          generate_for_locale (ev\<lparr>transport := requests_post cfg (transport ev)\<rparr>)
            loc seeds per_seed kb mdl dry_run d)"

text \<open>runbulk.py: the import of TestcaseTokens, then the call of line 17.\<close>

definition runbulk_seeds :: "pystr list" where
  "runbulk_seeds =
     [lit ''FAQ about warranty + order lookup + long complaint (Tamil + English)'',
      lit ''Order tracking long form and address correction'',
      lit ''Returns policy + API error + JSON payload included'',
      lit ''Product recommendation + warranty transfer request'']"

definition runbulk :: "settings \<Rightarrow> env \<Rightarrow> disk \<Rightarrow> pystr run" where
  "runbulk cfg ev d =
     (case import_TestcaseTokens cfg of
        Inl e \<Rightarrow>
          \<lparr>returned = Inl e, produced = [], posts = 0, disk_after = d, early_stop = False,
           write_error = None\<rparr>
      | Inr u \<Rightarrow>
          generate_bulk_rate_safe (ev\<lparr>transport := requests_post cfg (transport ev)\<rparr>)
            runbulk_seeds 25 (PInt 1) (lit ''generated_messages.json'') 200 d)"

section \<open>Simulated transports\<close>

text \<open>
  An attempt fails at the transport when \<open>requests.post\<close> raises or the response has a
  4xx or 5xx status, on which \<open>raise_for_status\<close> raises; \<open>failure_of\<close> is the exception
  of such an attempt. \<open>sleep_returns\<close> says that the sleep of \<open>call_groq_once\<close> on a
  429 returns.
\<close>

definition post_fails :: "post_result \<Rightarrow> bool" where
  "post_fails pr =
     (case pr of PostRaises \<Rightarrow> True
      | PostReturns r \<Rightarrow> 400 \<le> status_code r \<and> status_code r < 600)"

definition sleep_returns :: "post_result \<Rightarrow> bool" where
  "sleep_returns pr =
     (case pr of PostRaises \<Rightarrow> True
      | PostReturns r \<Rightarrow> status_code r \<noteq> 429 \<or> time_sleep (sleep_from_retry_headers r) = None)"

definition failure_of :: "post_result \<Rightarrow> exn" where
  "failure_of pr = (case pr of PostRaises \<Rightarrow> RequestException | PostReturns r \<Rightarrow> HTTPError (status_code r))"

text \<open>
  An environment around a given transport, with fixed texts for \<open>json.dumps\<close>, \<open>str\<close>
  and the prompt, and a response with a given status, body and remaining-token header:
  the inputs of the concrete runs below.
\<close>

definition sim_env :: "(nat \<Rightarrow> post_result) \<Rightarrow> env" where
  "sim_env tr =
     \<lparr>transport = tr, json_dumps = (\<lambda>j. lit ''<dumps>''), py_str = (\<lambda>j. lit ''<str>''),
      user_content = (\<lambda>s loc lbl kb n. lit ''Seed: '' @ s)\<rparr>"

definition http_response :: "nat \<Rightarrow> exn + json \<Rightarrow> header \<Rightarrow> post_result" where
  "http_response code body remaining =
     PostReturns \<lparr>status_code = code, json_body = body, body_text = lit ''<body>'',
                  remaining_tokens = remaining, retry_after = NoValue, retry_hint_ms = None\<rparr>"

definition rate_limited :: "header \<Rightarrow> post_result" where
  "rate_limited after =
     PostReturns \<lparr>status_code = 429, json_body = Inl InvalidJSONError,
                  body_text = lit ''<body>'', remaining_tokens = NoValue, retry_after = after,
                  retry_hint_ms = None\<rparr>"

definition good_disk :: "stored \<Rightarrow> disk" where
  "good_disk c = \<lparr>content = c, writable = True, room = True\<rparr>"

text \<open>
  The responses on which the code after the call does not raise: in
  \<open>generate_bulk_rate_safe\<close>, a body that is not JSON with a remaining-token header that
  \<open>float\<close> can read (or none), or a JSON body on which the parse returns; in
  \<open>generate_for_locale\<close>, a JSON body on which the parse and the sanitization return (a
  body that is not JSON fails the call itself, which is recorded).
\<close>

definition rate_safe_tolerates :: "(json \<Rightarrow> pystr) \<Rightarrow> response \<Rightarrow> bool" where
  "rate_safe_tolerates dumps r =
     (case json_body r of
        Inl e \<Rightarrow> remaining_tokens r \<noteq> NotFloat
      | Inr resp \<Rightarrow> (case parse_rate_safe dumps resp of Inl e \<Rightarrow> False | Inr v \<Rightarrow> True))"

definition locale_tolerates :: "(json \<Rightarrow> pystr) \<Rightarrow> response \<Rightarrow> bool" where
  "locale_tolerates to_str r =
     (case json_body r of
        Inl e \<Rightarrow> True
      | Inr resp \<Rightarrow> (case parse_locale to_str resp of Inl e \<Rightarrow> False | Inr v \<Rightarrow> True))"

section \<open>Properties of the pure functions\<close>

lemma truncation_marker_clean: "filter (\<lambda>c. \<not> is_control c) truncation_marker = truncation_marker"
  by (simp add: truncation_marker_def lit_def is_control_def)

lemma truncation_marker_length: "length truncation_marker = 16"
  by (simp add: truncation_marker_def lit_def)

lemma filter_take_clean:
  "filter P (take n (filter P xs)) = take n (filter P xs)"
  by (rule filter_True) (auto dest: in_set_takeD)

lemma overflow_bound_large: "(1024 :: rat) \<le> 2 ^ 1014"
proof -
  have "(2 :: rat) ^ 10 \<le> 2 ^ 1014" by (rule power_increasing) simp_all
  then show ?thesis by simp
qed

text \<open>
  C8. For every \<open>int\<close> \<open>kb \<ge> 0\<close> and every float \<open>kb\<close> from 0 up to, not
  including, \<open>2 ^ 1014\<close>, both \<open>_tokens_for_kb\<close> return
  \<open>max(32, floor(kb * 1024 / 4))\<close>; and \<open>_tokens_for_kb(1)\<close> is 256.
\<close>

theorem tokens_for_kb_formula:
  assumes "0 \<le> k" and "0 \<le> q" and "q < 2 ^ 1014"
  shows "tokens_for_kb (PInt k) = Inr (max 32 \<lfloor>(of_int k :: rat) * 1024 / 4\<rfloor>)
       \<and> tokens_for_kb_rate (PInt k) = Inr (max 32 \<lfloor>(of_int k :: rat) * 1024 / 4\<rfloor>)
       \<and> tokens_for_kb (PFloat q) = Inr (max 32 \<lfloor>q * 1024 / 4\<rfloor>)
       \<and> tokens_for_kb_rate (PFloat q) = Inr (max 32 \<lfloor>q * 1024 / 4\<rfloor>)
       \<and> tokens_for_kb (PInt 1) = Inr 256
       \<and> tokens_for_kb_rate (PInt 1) = Inr 256"
proof -
  have "(of_int k :: rat) * 1024 / 4 = of_int (k * 256)" by simp
  then have fl: "\<lfloor>(of_int k :: rat) * 1024 / 4\<rfloor> = k * 256" by (simp only: floor_of_int)
  have dv: "k * 1024 div 4 = k * 256" by simp
  have small: "\<not> 2 ^ 1014 \<le> \<bar>q\<bar>" using assms(2,3) by simp
  have "tokens_for_kb (PInt k) = Inr (max 32 \<lfloor>(of_int k :: rat) * 1024 / 4\<rfloor>)"
    unfolding fl by (simp add: tokens_for_kb_def dv)
  moreover have "tokens_for_kb_rate (PInt k) = Inr (max 32 \<lfloor>(of_int k :: rat) * 1024 / 4\<rfloor>)"
    unfolding fl by (simp add: tokens_for_kb_rate_def dv)
  moreover have "tokens_for_kb (PFloat q) = Inr (max 32 \<lfloor>q * 1024 / 4\<rfloor>)"
    using small by (simp add: tokens_for_kb_def)
  moreover have "tokens_for_kb_rate (PFloat q) = Inr (max 32 \<lfloor>q * 1024 / 4\<rfloor>)"
    using small by (simp add: tokens_for_kb_rate_def)
  moreover have "tokens_for_kb (PInt 1) = Inr 256"
    by (simp add: tokens_for_kb_def)
  moreover have "tokens_for_kb_rate (PInt 1) = Inr 256"
    by (simp add: tokens_for_kb_rate_def)
  ultimately show ?thesis by blast
qed

theorem tokens_for_kb_formula_witness:
  "(0::int) \<le> 3 \<and> (0::rat) \<le> 1 / 2 \<and> (1 / 2 :: rat) < 2 ^ 1014
   \<and> tokens_for_kb (PInt 3) = Inr 768 \<and> tokens_for_kb_rate (PInt 3) = Inr 768
   \<and> tokens_for_kb (PFloat (1 / 2)) = Inr 128 \<and> tokens_for_kb_rate (PFloat (1 / 2)) = Inr 128"
proof -
  have h: "(1 / 2 :: rat) < 2 ^ 1014" using overflow_bound_large by simp
  show ?thesis
    using tokens_for_kb_formula [of 3 "1 / 2"] h by simp
qed

text \<open>
  The formula does not hold for every float \<open>kb \<ge> 0\<close>: at \<open>2 ^ 1014\<close> the product
  overflows, the locale generator's function returns 256 and the other one raises, while
  the formula gives \<open>2 ^ 1022\<close>.
\<close>

theorem tokens_for_kb_float_overflow:
  "(0 :: rat) \<le> 2 ^ 1014
   \<and> tokens_for_kb (PFloat (2 ^ 1014)) = Inr 256
   \<and> tokens_for_kb_rate (PFloat (2 ^ 1014)) = Inl ValueError
   \<and> max 32 \<lfloor>(2 ^ 1014 :: rat) * 1024 / 4\<rfloor> \<noteq> 256"
proof -
  have a: "tokens_for_kb (PFloat (2 ^ 1014)) = Inr 256"
    by (simp add: tokens_for_kb_def)
  have b: "tokens_for_kb_rate (PFloat (2 ^ 1014)) = Inl ValueError"
    by (simp add: tokens_for_kb_rate_def)
  have "(2 ^ 1014 :: rat) * 1024 / 4 = of_int (2 ^ 1014 * 256)" by simp
  then have fl: "\<lfloor>(2 ^ 1014 :: rat) * 1024 / 4\<rfloor> = 2 ^ 1014 * 256"
    by (simp only: floor_of_int)
  have "(2 :: int) ^ 1 \<le> 2 ^ 1014" by (rule power_increasing) simp_all
  then have "(512 :: int) \<le> 2 ^ 1014 * 256" by simp
  then have c: "max 32 \<lfloor>(2 ^ 1014 :: rat) * 1024 / 4\<rfloor> \<noteq> 256"
    unfolding fl by simp
  from a b c show ?thesis by simp
qed

text \<open>
  C10. \<open>_tokens_for_kb\<close> of the locale generator returns a number on every input and
  never raises; where the arithmetic raises (NaN, an infinity, a non-numeric value) the
  number is 256.
\<close>

theorem tokens_for_kb_total:
  "(\<exists>n. tokens_for_kb kb = Inr n)
   \<and> (\<forall>e. tokens_arith kb = Inl e \<longrightarrow> tokens_for_kb kb = Inr 256)
   \<and> tokens_for_kb PNonNumeric = Inr 256
   \<and> tokens_for_kb PNan = Inr 256
   \<and> tokens_for_kb PInf = Inr 256"
  by (cases kb) (simp_all add: tokens_for_kb_def)

theorem tokens_for_kb_total_witness:
  "tokens_arith PNonNumeric = Inl TypeError \<and> tokens_for_kb PNonNumeric = Inr 256
   \<and> tokens_for_kb_rate PNonNumeric = Inl TypeError"
  using tokens_for_kb_total [of PNonNumeric]
  by (simp add: tokens_for_kb_rate_def)

text \<open>
  C4. \<open>sanitize_text\<close> is idempotent for every string and every maximum length that is
  not negative, also where the input is longer than the maximum and is cut, with the
  marker appended.
\<close>

theorem sanitize_text_idempotent:
  assumes "0 \<le> max_len"
  shows "sanitize_text (sanitize_text x max_len) max_len = sanitize_text x max_len"
proof (cases "x = []")
  case True
  then show ?thesis by (simp add: sanitize_text_def)
next
  case False
  define s1 where "s1 = filter (\<lambda>c. \<not> is_control c) x"
  have clean: "filter (\<lambda>c. \<not> is_control c) s1 = s1"
    by (simp add: s1_def)
  show ?thesis
  proof (cases "int (length s1) > max_len")
    case True
    define r where "r = take (nat max_len) s1 @ truncation_marker"
    have first: "sanitize_text x max_len = r"
      using False True assms by (simp add: sanitize_text_def s1_def r_def py_prefix_def Let_def)
    have len_take: "length (take (nat max_len) s1) = nat max_len"
      using True assms by simp
    have r_clean: "filter (\<lambda>c. \<not> is_control c) r = r"
      by (simp add: r_def s1_def filter_take_clean truncation_marker_clean)
    have r_long: "int (length r) > max_len"
      using len_take assms by (simp add: r_def truncation_marker_length)
    have r_ne: "r \<noteq> []"
      using truncation_marker_length by (auto simp: r_def)
    have "take (nat max_len) r = take (nat max_len) s1"
      using len_take by (simp add: r_def)
    then have "sanitize_text r max_len = r"
      using r_ne r_long r_clean assms
      by (simp add: sanitize_text_def py_prefix_def Let_def) (simp add: r_def)
    then show ?thesis by (simp add: first)
  next
    case short: False
    have first: "sanitize_text x max_len = s1"
      using False short by (simp add: sanitize_text_def s1_def Let_def)
    have "sanitize_text s1 max_len = s1"
      using short clean by (simp add: sanitize_text_def Let_def)
    then show ?thesis by (simp add: first)
  qed
qed

theorem sanitize_text_idempotent_witness:
  "(0::int) \<le> 3
   \<and> sanitize_text (lit ''ab'' @ [7, 27] @ lit ''cde'') 3 = lit ''abc'' @ truncation_marker
   \<and> sanitize_text (sanitize_text (lit ''ab'' @ [7, 27] @ lit ''cde'') 3) 3
       = lit ''abc'' @ truncation_marker"
proof -
  have v: "sanitize_text (lit ''ab'' @ [7, 27] @ lit ''cde'') 3 = lit ''abc'' @ truncation_marker"
    by (simp add: sanitize_text_def lit_def is_control_def py_prefix_def)
  show ?thesis
    using sanitize_text_idempotent [of 3 "lit ''ab'' @ [7, 27] @ lit ''cde''"] v by simp
qed

section \<open>Properties of the retry envelope and the loops\<close>

lemma call_groq_attempt_fails:
  "post_fails pr \<Longrightarrow> call_groq_attempt pr = Inl (failure_of pr)"
  by (auto simp: post_fails_def failure_of_def call_groq_attempt_def raise_for_status_def
           split: post_result.splits)

lemma call_groq_once_attempt_fails:
  "post_fails pr \<Longrightarrow> sleep_returns pr \<Longrightarrow> call_groq_once_attempt pr = Inl (failure_of pr)"
  by (auto simp: post_fails_def sleep_returns_def failure_of_def call_groq_once_attempt_def
                 raise_for_status_def
           split: post_result.splits)

lemma failure_of_retryable: "is_request_exception (failure_of pr)"
  by (simp add: failure_of_def split: post_result.splits)

lemma tenacity_retry_exhausted:
  assumes "\<And>q. attempt (tr q) = Inl (failure_of (tr q))"
  shows "tenacity_retry k attempt tr p = (Inl (RetryError (failure_of (tr (p + k)))), p + k + 1)"
  using assms
  by (induction k arbitrary: p) (simp_all add: failure_of_retryable)

lemma iterations_length: "length (iterations seeds per_seed) = length seeds * nat per_seed"
  by (induction seeds) (simp_all add: iterations_def)


lemma for_each_append_seed:
  assumes body: "\<And>s out p out' p'. body s (out, p) = (Proceed, out', p') \<Longrightarrow> \<exists>r. out' = out @ [r] \<and> seed r = s"
  shows "for_each body xs (out, p) = (Proceed, out', p') \<Longrightarrow> map seed out' = map seed out @ xs"
proof (induction xs arbitrary: out p)
  case Nil
  then show ?case by simp
next
  case (Cons s xs)
  obtain sg o1 p1 where b: "body s (out, p) = (sg, o1, p1)"
    by (cases "body s (out, p)") auto
  show ?case
  proof (cases sg)
    case Proceed
    with b body obtain r where r: "o1 = out @ [r]" "seed r = s" by blast
    from Cons.prems b Proceed have "for_each body xs (o1, p1) = (Proceed, out', p')" by simp
    from Cons.IH [OF this] show ?thesis using r by simp
  next
    case StopEarly
    with Cons.prems b show ?thesis by simp
  next
    case (Raise e)
    with Cons.prems b show ?thesis by simp
  qed
qed

lemma for_each_never_stops:
  assumes body: "\<And>s st. fst (body s st) \<noteq> StopEarly"
  shows "fst (for_each body xs st) \<noteq> StopEarly"
proof (induction xs arbitrary: st)
  case Nil
  then show ?case by simp
next
  case (Cons s xs)
  obtain sg st1 where b: "body s st = (sg, st1)" by (cases "body s st") auto
  show ?case
  proof (cases sg)
    case Proceed
    with b Cons.IH [of st1] show ?thesis by simp
  next
    case StopEarly
    with b body [of s st] show ?thesis by simp
  next
    case (Raise e)
    with b show ?thesis by simp
  qed
qed

lemma rate_safe_iteration_appends:
  "rate_safe_iteration ev th s (out, p) = (Proceed, out', p') \<Longrightarrow> \<exists>r. out' = out @ [r] \<and> seed r = s"
  by (auto simp: rate_safe_iteration_def error_record_def message_record_def Let_def
           split: prod.splits sum.splits header.splits if_splits)

lemma locale_iteration_appends:
  "locale_iteration ev loc lbl kb mdl tokens dry s (out, p) = (Proceed, out', p') \<Longrightarrow> \<exists>r. out' = out @ [r] \<and> seed r = s"
  by (auto simp: locale_iteration_def locale_error_record_def locale_message_record_def preview_record_def Let_def
           split: prod.splits sum.splits if_splits)

lemma locale_iteration_never_stops:
  "fst (locale_iteration ev loc lbl kb mdl tokens dry s st) \<noteq> StopEarly"
  by (cases st) (auto simp: locale_iteration_def Let_def split: prod.splits sum.splits)

lemma locale_loop_never_stops:
  "fst (for_each (locale_iteration ev loc lbl kb mdl tokens dry) xs st) \<noteq> StopEarly"
  by (rule for_each_never_stops) (rule locale_iteration_never_stops)

lemma failed_call_is_recorded:
  "call_groq_once (transport ev) p = (Inl e, p') \<Longrightarrow>
     rate_safe_iteration ev th s (out, p) = (Proceed, out @ [error_record s e], p')"
  "call_groq (transport ev) p = (Inl e, p') \<Longrightarrow>
     locale_iteration ev loc lbl kb mdl tokens False s (out, p) = (Proceed, out @ [locale_error_record s e loc], p')"
  by (simp_all add: rate_safe_iteration_def locale_iteration_def)

lemma tokens_for_kb_returns: "\<exists>n. tokens_for_kb kb = Inr n"
  by (cases kb) (simp_all add: tokens_for_kb_def)

lemma call_groq_exhausted:
  assumes "\<forall>q. post_fails (tr q)"
  shows "call_groq tr p = (Inl (RetryError (failure_of (tr (p + 2)))), p + 3)"
  using tenacity_retry_exhausted [of call_groq_attempt tr 2 p] assms
  by (simp add: call_groq_def call_groq_max_attempts_def call_groq_attempt_fails)

lemma call_groq_once_exhausted:
  assumes "\<forall>q. post_fails (tr q) \<and> sleep_returns (tr q)"
  shows "call_groq_once tr p = (Inl (RetryError (failure_of (tr (p + 3)))), p + 4)"
  using tenacity_retry_exhausted [of call_groq_once_attempt tr 3 p] assms
  by (simp add: call_groq_once_def call_groq_once_max_attempts_def call_groq_once_attempt_fails)

text \<open>
  Against a transport that fails on every attempt, and whose 429 responses give a time
  that \<open>time.sleep\<close> accepts, one dispatched call makes exactly the maximum number of
  \<open>requests.post\<close> calls, three for \<open>call_groq\<close> and four for \<open>call_groq_once\<close>,
  and the iteration then appends a record with the error set and no message, and goes on.
\<close>

lemma retry_exhausts_all_attempts:
  assumes "\<forall>q. post_fails (transport ev q) \<and> sleep_returns (transport ev q)"
  shows "call_groq (transport ev) p
           = (Inl (RetryError (failure_of (transport ev (p + 2)))), p + call_groq_max_attempts)
       \<and> call_groq_once (transport ev) p
           = (Inl (RetryError (failure_of (transport ev (p + 3)))), p + call_groq_once_max_attempts)
       \<and> locale_iteration ev loc lbl kb mdl tokens False s (out, p)
           = (Proceed,
              out @ [\<lparr>seed = s, visitor_message = JNull,
                       error = Some (RetryError (failure_of (transport ev (p + 2)))),
                       preview = None, locale_code = Some loc, model = None,
                       tokens_requested = None\<rparr>],
              p + call_groq_max_attempts)
       \<and> rate_safe_iteration ev th s (out, p)
           = (Proceed,
              out @ [\<lparr>seed = s, visitor_message = JNull,
                       error = Some (RetryError (failure_of (transport ev (p + 3)))),
                       preview = None, locale_code = None, model = None,
                       tokens_requested = None\<rparr>],
              p + call_groq_once_max_attempts)
       \<and> call_groq_max_attempts = 3 \<and> call_groq_once_max_attempts = 4"
proof -
  have f: "\<forall>q. post_fails (transport ev q)" using assms by simp
  have a: "call_groq (transport ev) p
           = (Inl (RetryError (failure_of (transport ev (p + 2)))), p + call_groq_max_attempts)"
    by (simp add: call_groq_exhausted [OF f] call_groq_max_attempts_def)
  have b: "call_groq_once (transport ev) p
           = (Inl (RetryError (failure_of (transport ev (p + 3)))), p + call_groq_once_max_attempts)"
    by (simp add: call_groq_once_exhausted [OF assms] call_groq_once_max_attempts_def)
  have c: "locale_iteration ev loc lbl kb mdl tokens False s (out, p)
           = (Proceed,
              out @ [\<lparr>seed = s, visitor_message = JNull,
                       error = Some (RetryError (failure_of (transport ev (p + 2)))),
                       preview = None, locale_code = Some loc, model = None,
                       tokens_requested = None\<rparr>],
              p + call_groq_max_attempts)"
    by (simp add: locale_iteration_def a locale_error_record_def)
  have d: "rate_safe_iteration ev th s (out, p)
           = (Proceed,
              out @ [\<lparr>seed = s, visitor_message = JNull,
                       error = Some (RetryError (failure_of (transport ev (p + 3)))),
                       preview = None, locale_code = None, model = None,
                       tokens_requested = None\<rparr>],
              p + call_groq_once_max_attempts)"
    by (simp add: rate_safe_iteration_def b error_record_def)
  show ?thesis
    by (simp only: a b c d call_groq_max_attempts_def call_groq_once_max_attempts_def simp_thms)
qed

section \<open>Properties of whole runs\<close>

lemma open_w_dump_cases:
  "open_w_dump d recs = (Some e, d') \<Longrightarrow>
     (d' = d \<and> \<not> writable d) \<or> (d' = d\<lparr>content := Unloadable\<rparr> \<and> writable d)"
  "open_w_dump d recs = (None, d') \<Longrightarrow>
     d' = d\<lparr>content := Stored recs\<rparr> \<and> writable d \<and> room d \<and> list_all encodable_record recs"
  by (auto simp: open_w_dump_def split: if_splits)

lemma open_w_dump_succeeds:
  "writable d \<Longrightarrow> room d \<Longrightarrow> list_all encodable_record recs
     \<Longrightarrow> open_w_dump d recs = (None, d\<lparr>content := Stored recs\<rparr>)"
  by (simp add: open_w_dump_def)

lemma generate_for_locale_cases:
  "(\<exists>e out p. \<forall>d. generate_for_locale ev loc seeds per_seed kb mdl dry d
        = \<lparr>returned = Inl e, produced = out, posts = p, disk_after = d, early_stop = False,
           write_error = None\<rparr>)
   \<or> (\<exists>out p. map seed out = iterations seeds per_seed
        \<and> (\<forall>d. generate_for_locale ev loc seeds per_seed kb mdl dry d
        = \<lparr>returned = Inr out, produced = out, posts = p, disk_after = snd (write_merged d out),
           early_stop = False, write_error = fst (write_merged d out)\<rparr>))"
proof -
  define lbl where "lbl = (case map_of LOCALE_TO_LANGUAGE loc of Some l \<Rightarrow> l | None \<Rightarrow> loc)"
  obtain t where t: "tokens_for_kb kb = Inr t" using tokens_for_kb_returns by blast
  obtain sg out p where l:
    "for_each (locale_iteration ev loc lbl kb mdl t dry) (iterations seeds per_seed) ([], 0) = (sg, out, p)"
    by (metis prod_cases3)
  have ns: "sg \<noteq> StopEarly"
    using locale_loop_never_stops [of ev loc lbl kb mdl t dry "iterations seeds per_seed" "([], 0)"] l
    by simp
  show ?thesis
  proof (cases sg)
    case Proceed
    then have all: "\<forall>d. generate_for_locale ev loc seeds per_seed kb mdl dry d
        = \<lparr>returned = Inr out, produced = out, posts = p, disk_after = snd (write_merged d out),
           early_stop = False, write_error = fst (write_merged d out)\<rparr>"
      by (simp add: generate_for_locale_def lbl_def [symmetric] t l)
    have "for_each (locale_iteration ev loc lbl kb mdl t dry) (iterations seeds per_seed) ([], 0)
            = (Proceed, out, p)"
      using l Proceed by simp
    then have "map seed out = map seed ([] :: gen_result list) @ iterations seeds per_seed"
      by (rule for_each_append_seed [rotated]) (rule locale_iteration_appends)
    then have "map seed out = iterations seeds per_seed" by simp
    with all show ?thesis by blast
  next
    case StopEarly
    with ns show ?thesis by simp
  next
    case (Raise e)
    then have "\<forall>d. generate_for_locale ev loc seeds per_seed kb mdl dry d
        = \<lparr>returned = Inl e, produced = out, posts = p, disk_after = d, early_stop = False,
           write_error = None\<rparr>"
      by (simp add: generate_for_locale_def lbl_def [symmetric] t l)
    then show ?thesis by blast
  qed
qed

lemma generate_bulk_rate_safe_cases:
  "(\<exists>e out p. \<forall>d. generate_bulk_rate_safe ev seeds per_seed kb f th d
        = \<lparr>returned = Inl e, produced = out, posts = p, disk_after = d, early_stop = False,
           write_error = None\<rparr>)
   \<or> (\<exists>out p es. (\<not> es \<longrightarrow> map seed out = iterations seeds per_seed)
        \<and> (\<forall>d. generate_bulk_rate_safe ev seeds per_seed kb f th d
        = (case fst (open_w_dump d out) of
             Some e \<Rightarrow>
               \<lparr>returned = Inl e, produced = out, posts = p,
                disk_after = snd (open_w_dump d out), early_stop = es, write_error = Some e\<rparr>
           | None \<Rightarrow>
               \<lparr>returned = Inr f, produced = out, posts = p,
                disk_after = snd (open_w_dump d out), early_stop = es, write_error = None\<rparr>)))"
proof (cases "tokens_for_kb_rate kb")
  case (Inl e)
  then have "\<forall>d. generate_bulk_rate_safe ev seeds per_seed kb f th d
        = \<lparr>returned = Inl e, produced = [], posts = 0, disk_after = d, early_stop = False,
           write_error = None\<rparr>"
    by (simp add: generate_bulk_rate_safe_def)
  then show ?thesis by blast
next
  case (Inr t)
  obtain sg out p where l:
    "for_each (rate_safe_iteration ev th) (iterations seeds per_seed) ([], 0) = (sg, out, p)"
    by (metis prod_cases3)
  show ?thesis
  proof (cases sg)
    case Proceed
    then have all: "\<forall>d. generate_bulk_rate_safe ev seeds per_seed kb f th d
        = (case fst (open_w_dump d out) of
             Some e \<Rightarrow>
               \<lparr>returned = Inl e, produced = out, posts = p,
                disk_after = snd (open_w_dump d out), early_stop = False, write_error = Some e\<rparr>
           | None \<Rightarrow>
               \<lparr>returned = Inr f, produced = out, posts = p,
                disk_after = snd (open_w_dump d out), early_stop = False, write_error = None\<rparr>)"
      by (simp add: generate_bulk_rate_safe_def Inr l split: prod.splits option.splits)
    have "for_each (rate_safe_iteration ev th) (iterations seeds per_seed) ([], 0)
            = (Proceed, out, p)"
      using l Proceed by simp
    then have "map seed out = map seed ([] :: gen_result list) @ iterations seeds per_seed"
      by (rule for_each_append_seed [rotated]) (rule rate_safe_iteration_appends)
    then have "\<not> False \<longrightarrow> map seed out = iterations seeds per_seed" by simp
    with all show ?thesis by blast
  next
    case StopEarly
    then have all: "\<forall>d. generate_bulk_rate_safe ev seeds per_seed kb f th d
        = (case fst (open_w_dump d out) of
             Some e \<Rightarrow>
               \<lparr>returned = Inl e, produced = out, posts = p,
                disk_after = snd (open_w_dump d out), early_stop = True, write_error = Some e\<rparr>
           | None \<Rightarrow>
               \<lparr>returned = Inr f, produced = out, posts = p,
                disk_after = snd (open_w_dump d out), early_stop = True, write_error = None\<rparr>)"
      by (simp add: generate_bulk_rate_safe_def Inr l split: prod.splits option.splits)
    have "\<not> True \<longrightarrow> map seed out = iterations seeds per_seed" by simp
    with all show ?thesis by blast
  next
    case (Raise e)
    then have "\<forall>d. generate_bulk_rate_safe ev seeds per_seed kb f th d
        = \<lparr>returned = Inl e, produced = out, posts = p, disk_after = d, early_stop = False,
           write_error = None\<rparr>"
      by (simp add: generate_bulk_rate_safe_def Inr l)
    then show ?thesis by blast
  qed
qed

lemma rate_safe_completed_run:
  assumes "returned (generate_bulk_rate_safe ev seeds per_seed kb f th d) = Inr v"
    and "\<not> early_stop (generate_bulk_rate_safe ev seeds per_seed kb f th d)"
  shows "map seed (produced (generate_bulk_rate_safe ev seeds per_seed kb f th d)) = iterations seeds per_seed"
proof -
  from generate_bulk_rate_safe_cases [of ev seeds per_seed kb f th]
  consider (raised) e out p where
      "generate_bulk_rate_safe ev seeds per_seed kb f th d
        = \<lparr>returned = Inl e, produced = out, posts = p, disk_after = d, early_stop = False,
           write_error = None\<rparr>"
    | (wrote) out p es where "\<not> es \<longrightarrow> map seed out = iterations seeds per_seed"
      "generate_bulk_rate_safe ev seeds per_seed kb f th d
        = (case fst (open_w_dump d out) of
             Some e \<Rightarrow>
               \<lparr>returned = Inl e, produced = out, posts = p,
                disk_after = snd (open_w_dump d out), early_stop = es, write_error = Some e\<rparr>
           | None \<Rightarrow>
               \<lparr>returned = Inr f, produced = out, posts = p,
                disk_after = snd (open_w_dump d out), early_stop = es, write_error = None\<rparr>)"
    by blast
  then show ?thesis
  proof cases
    case raised
    with assms(1) show ?thesis by simp
  next
    case wrote
    show ?thesis
    proof (cases "fst (open_w_dump d out)")
      case None
      with wrote assms(2) show ?thesis by simp
    next
      case (Some e)
      with wrote assms(1) show ?thesis by simp
    qed
  qed
qed

lemma locale_completed_run:
  assumes "returned (generate_for_locale ev loc seeds per_seed kb mdl dry d) = Inr out"
  shows "produced (generate_for_locale ev loc seeds per_seed kb mdl dry d) = out
       \<and> map seed out = iterations seeds per_seed"
  using generate_for_locale_cases [of ev loc seeds per_seed kb mdl dry] assms
  by auto

lemma rate_safe_loop_all_fail:
  assumes "\<forall>q. post_fails (transport ev q) \<and> sleep_returns (transport ev q)"
  shows "\<exists>new. for_each (rate_safe_iteration ev th) xs (out, p) = (Proceed, out @ new, p + 4 * length xs)"
proof (induction xs arbitrary: out p)
  case Nil
  then show ?case by simp
next
  case (Cons s xs)
  define r where "r = error_record s (RetryError (failure_of (transport ev (p + 3))))"
  have step: "rate_safe_iteration ev th s (out, p) = (Proceed, out @ [r], p + 4)"
    by (simp add: rate_safe_iteration_def call_groq_once_exhausted [OF assms] r_def)
  from Cons.IH [of "out @ [r]" "p + 4"] obtain new where
    new: "for_each (rate_safe_iteration ev th) xs (out @ [r], p + 4)
            = (Proceed, (out @ [r]) @ new, p + 4 + 4 * length xs)"
    by blast
  have "for_each (rate_safe_iteration ev th) (s # xs) (out, p)
          = (Proceed, out @ (r # new), p + 4 * length (s # xs))"
    using step new by simp
  then show ?case by (rule exI [of _ "r # new"])
qed

lemma tenacity_retry_returns_response:
  "tenacity_retry k call_groq_once_attempt tr p = (Inr r, p') \<Longrightarrow> \<exists>n. tr n = PostReturns r"
proof (induction k arbitrary: p)
  case 0
  then show ?case
    by (cases "tr p") (auto simp: call_groq_once_attempt_def split: option.splits if_splits)
next
  case (Suc k)
  show ?case
  proof (cases "call_groq_once_attempt (tr p)")
    case (Inl e)
    with Suc.prems have "tenacity_retry k call_groq_once_attempt tr (Suc p) = (Inr r, p')"
      by (simp split: if_splits)
    from Suc.IH [OF this] show ?thesis .
  next
    case (Inr v)
    with Suc.prems have "v = r" by simp
    with Inr show ?thesis
      by (cases "tr p") (auto simp: call_groq_once_attempt_def split: option.splits if_splits)
  qed
qed

lemma parsed_body_iteration_never_stops:
  assumes "\<forall>n r. transport ev n = PostReturns r \<longrightarrow> (\<exists>j. json_body r = Inr j)"
  shows "fst (rate_safe_iteration ev th s st) \<noteq> StopEarly"
proof (cases st)
  case (Pair out p)
  obtain res p' where c: "call_groq_once (transport ev) p = (res, p')"
    by (cases "call_groq_once (transport ev) p") auto
  show ?thesis
  proof (cases res)
    case (Inl e)
    with c Pair show ?thesis by (simp add: rate_safe_iteration_def)
  next
    case (Inr r)
    with c have "\<exists>n. transport ev n = PostReturns r"
      by (auto simp: call_groq_once_def dest: tenacity_retry_returns_response)
    with assms obtain j where "json_body r = Inr j" by blast
    with c Inr Pair show ?thesis
      by (simp add: rate_safe_iteration_def split: sum.splits)
  qed
qed

lemma parsed_bodies_never_stop_early:
  assumes "\<forall>n r. transport ev n = PostReturns r \<longrightarrow> (\<exists>j. json_body r = Inr j)"
  shows "\<not> early_stop (generate_bulk_rate_safe ev seeds per_seed kb f th d)"
proof -
  have "fst (for_each (rate_safe_iteration ev th) (iterations seeds per_seed) ([], 0)) \<noteq> StopEarly"
    by (rule for_each_never_stops) (rule parsed_body_iteration_never_stops [OF assms])
  then show ?thesis
    by (auto simp: generate_bulk_rate_safe_def split: sum.splits prod.splits signal.splits option.splits)
qed

lemma chat_completion_body_parses:
  assumes "s \<noteq> []"
  shows "parse_rate_safe dumps
           (JObj [(lit ''choices'', JArr [JObj [(lit ''message'', JObj [(lit ''content'', JStr s)])]])])
         = Inr (JStr s)"
    and "parse_locale to_str
           (JObj [(lit ''choices'', JArr [JObj [(lit ''message'', JObj [(lit ''content'', JStr s)])]])])
         = Inr (JStr (sanitize_text s 100000))"
  using assms
  by (simp_all add: parse_rate_safe_def parse_locale_def sanitize_value_def dict_get_def py_or_def
        lit_def)

lemma for_each_never_raises:
  assumes body: "\<And>s st e. fst (body s st) \<noteq> Raise e"
  shows "fst (for_each body xs st) \<noteq> Raise e"
proof (induction xs arbitrary: st)
  case Nil
  then show ?case by simp
next
  case (Cons s xs)
  obtain sg st1 where b: "body s st = (sg, st1)" by (cases "body s st") auto
  show ?case
  proof (cases sg)
    case Proceed
    with b Cons.IH [of st1] show ?thesis by simp
  next
    case StopEarly
    with b show ?thesis by simp
  next
    case (Raise e')
    with b body [of s st e'] show ?thesis by simp
  qed
qed

lemma tenacity_retry_returns_json:
  "tenacity_retry k call_groq_attempt tr p = (Inr j, p')
     \<Longrightarrow> \<exists>n r. tr n = PostReturns r \<and> json_body r = Inr j"
proof (induction k arbitrary: p)
  case 0
  then show ?case
    by (cases "tr p") (auto simp: call_groq_attempt_def split: option.splits if_splits sum.splits)
next
  case (Suc k)
  show ?case
  proof (cases "call_groq_attempt (tr p)")
    case (Inl e)
    with Suc.prems have "tenacity_retry k call_groq_attempt tr (Suc p) = (Inr j, p')"
      by (simp split: if_splits)
    from Suc.IH [OF this] show ?thesis .
  next
    case (Inr v)
    with Suc.prems have "v = j" by simp
    with Inr show ?thesis
      by (cases "tr p") (auto simp: call_groq_attempt_def split: option.splits if_splits)
  qed
qed

lemma tolerated_rate_safe_iteration_never_raises:
  assumes "\<forall>n r. transport ev n = PostReturns r \<longrightarrow> rate_safe_tolerates (json_dumps ev) r"
  shows "fst (rate_safe_iteration ev th s st) \<noteq> Raise e"
proof (cases st)
  case (Pair out p)
  obtain res p' where c: "call_groq_once (transport ev) p = (res, p')"
    by (cases "call_groq_once (transport ev) p") auto
  show ?thesis
  proof (cases res)
    case (Inl e)
    with c Pair show ?thesis by (simp add: rate_safe_iteration_def)
  next
    case (Inr r)
    with c have "\<exists>n. transport ev n = PostReturns r"
      by (auto simp: call_groq_once_def dest: tenacity_retry_returns_response)
    with assms have "rate_safe_tolerates (json_dumps ev) r" by blast
    with c Inr Pair show ?thesis
      by (auto simp: rate_safe_iteration_def rate_safe_tolerates_def Let_def
               split: sum.splits header.splits)
  qed
qed

lemma tolerated_locale_iteration_never_raises:
  assumes "\<forall>n r. transport ev n = PostReturns r \<longrightarrow> locale_tolerates (py_str ev) r"
  shows "fst (locale_iteration ev loc lbl kb mdl tokens dry s st) \<noteq> Raise e"
proof (cases st)
  case (Pair out p)
  obtain res p' where c: "call_groq (transport ev) p = (res, p')"
    by (cases "call_groq (transport ev) p") auto
  show ?thesis
  proof (cases res)
    case (Inl e)
    with c Pair show ?thesis by (simp add: locale_iteration_def Let_def)
  next
    case (Inr j)
    with c have "\<exists>n r. transport ev n = PostReturns r \<and> json_body r = Inr j"
      by (auto simp: call_groq_def dest: tenacity_retry_returns_json)
    with assms obtain r where "json_body r = Inr j" "locale_tolerates (py_str ev) r" by blast
    then have "\<exists>v. parse_locale (py_str ev) j = Inr v"
      by (auto simp: locale_tolerates_def split: sum.splits)
    with c Inr Pair show ?thesis
      by (auto simp: locale_iteration_def Let_def)
  qed
qed

lemma rate_safe_run_completes:
  assumes tol: "\<forall>n r. transport ev n = PostReturns r \<longrightarrow> rate_safe_tolerates (json_dumps ev) r"
    and kb: "tokens_for_kb_rate kb = Inr t"
    and w: "write_error (generate_bulk_rate_safe ev seeds per_seed kb f th d) = None"
    and ns: "\<not> early_stop (generate_bulk_rate_safe ev seeds per_seed kb f th d)"
  shows "returned (generate_bulk_rate_safe ev seeds per_seed kb f th d) = Inr f
       \<and> map seed (produced (generate_bulk_rate_safe ev seeds per_seed kb f th d))
           = iterations seeds per_seed
       \<and> length (produced (generate_bulk_rate_safe ev seeds per_seed kb f th d))
           = length seeds * nat per_seed
       \<and> content (disk_after (generate_bulk_rate_safe ev seeds per_seed kb f th d))
           = Stored (produced (generate_bulk_rate_safe ev seeds per_seed kb f th d))"
proof -
  obtain sg out p where l:
    "for_each (rate_safe_iteration ev th) (iterations seeds per_seed) ([], 0) = (sg, out, p)"
    by (metis prod_cases3)
  have "fst (for_each (rate_safe_iteration ev th) (iterations seeds per_seed) ([], 0)) \<noteq> Raise e" for e
    by (rule for_each_never_raises) (rule tolerated_rate_safe_iteration_never_raises [OF tol])
  with l have nr: "sg \<noteq> Raise e" for e by simp
  have sg: "sg = Proceed"
    using ns nr kb l by (cases sg) (auto simp: generate_bulk_rate_safe_def split: prod.splits option.splits)
  obtain we d' where o: "open_w_dump d out = (we, d')" by (cases "open_w_dump d out") auto
  have we: "we = None"
    using w sg kb l o by (cases we) (simp_all add: generate_bulk_rate_safe_def)
  have d': "d' = d\<lparr>content := Stored out\<rparr>"
    using o we open_w_dump_cases(2) by blast
  have run: "generate_bulk_rate_safe ev seeds per_seed kb f th d
      = \<lparr>returned = Inr f, produced = out, posts = p, disk_after = d\<lparr>content := Stored out\<rparr>,
         early_stop = False, write_error = None\<rparr>"
    using sg kb l o we d' by (simp add: generate_bulk_rate_safe_def)
  have "for_each (rate_safe_iteration ev th) (iterations seeds per_seed) ([], 0) = (Proceed, out, p)"
    using l sg by simp
  then have "map seed out = map seed ([] :: gen_result list) @ iterations seeds per_seed"
    by (rule for_each_append_seed [rotated]) (rule rate_safe_iteration_appends)
  then have m: "map seed out = iterations seeds per_seed" by simp
  have "length (map seed out) = length (iterations seeds per_seed)" by (simp only: m)
  then have n: "length out = length seeds * nat per_seed" by (simp add: iterations_length)
  show ?thesis unfolding run using m n by simp
qed

lemma locale_run_completes:
  assumes tol: "\<forall>n r. transport ev n = PostReturns r \<longrightarrow> locale_tolerates (py_str ev) r"
  shows "returned (generate_for_locale ev loc seeds per_seed kb mdl dry d)
           = Inr (produced (generate_for_locale ev loc seeds per_seed kb mdl dry d))
       \<and> map seed (produced (generate_for_locale ev loc seeds per_seed kb mdl dry d))
           = iterations seeds per_seed
       \<and> length (produced (generate_for_locale ev loc seeds per_seed kb mdl dry d))
           = length seeds * nat per_seed"
proof -
  define lbl where "lbl = (case map_of LOCALE_TO_LANGUAGE loc of Some l \<Rightarrow> l | None \<Rightarrow> loc)"
  obtain t where t: "tokens_for_kb kb = Inr t" using tokens_for_kb_returns by blast
  obtain sg out p where l:
    "for_each (locale_iteration ev loc lbl kb mdl t dry) (iterations seeds per_seed) ([], 0) = (sg, out, p)"
    by (metis prod_cases3)
  have "fst (for_each (locale_iteration ev loc lbl kb mdl t dry) (iterations seeds per_seed) ([], 0))
          \<noteq> Raise e" for e
    by (rule for_each_never_raises) (rule tolerated_locale_iteration_never_raises [OF tol])
  with l have nr: "sg \<noteq> Raise e" for e by simp
  have ns: "sg \<noteq> StopEarly"
    using locale_loop_never_stops [of ev loc lbl kb mdl t dry "iterations seeds per_seed" "([], 0)"] l
    by simp
  have sg: "sg = Proceed" using nr ns by (cases sg) auto
  have r: "returned (generate_for_locale ev loc seeds per_seed kb mdl dry d) = Inr out"
    and pr: "produced (generate_for_locale ev loc seeds per_seed kb mdl dry d) = out"
    using sg t l by (simp_all add: generate_for_locale_def lbl_def [symmetric])
  have m: "map seed out = iterations seeds per_seed"
    using locale_completed_run [OF r] by simp
  have "length (map seed out) = length (iterations seeds per_seed)"
    by (simp only: m)
  then have n: "length out = length seeds * nat per_seed"
    by (simp add: iterations_length)
  from r pr m n show ?thesis by simp
qed

lemma failed_generation_does_not_abort_example:
  "generate_bulk_rate_safe
     (sim_env (\<lambda>n. if n < 4 then http_response 503 (Inl InvalidJSONError) NoValue
                   else http_response 200
                     (Inr (JObj [(lit ''choices'',
                        JArr [JObj [(lit ''message'', JObj [(lit ''content'', JStr (lit ''hi''))])]])]))
                     (FloatText (Finite 5000))))
     [lit ''a'', lit ''b''] 1 (PInt 1) (lit ''out.json'') 200
     \<lparr>content = Absent, writable = True, room = True\<rparr>
   = \<lparr>returned = Inr (lit ''out.json''),
      produced = [error_record (lit ''a'') (RetryError (HTTPError 503)),
                  message_record (lit ''b'') (JStr (lit ''hi''))],
      posts = 5,
      disk_after = \<lparr>content = Stored [error_record (lit ''a'') (RetryError (HTTPError 503)),
                                         message_record (lit ''b'') (JStr (lit ''hi''))],
                    writable = True, room = True\<rparr>,
      early_stop = False, write_error = None\<rparr>"
  by code_simp

text \<open>
  A dump that fails after the file was opened leaves the file cut: one surrogate in a
  response costs \<open>generate_for_locale\<close> the records the file held.
\<close>

lemma failed_dump_cuts_file_example:
  "generate_for_locale
     (sim_env (\<lambda>n. http_response 200 (Inr (JObj [(lit ''output_text'', JStr [55357])])) NoValue))
     (lit ''en-GB'') [lit ''a''] 1 (PInt 1) (lit ''m'') False
     \<lparr>content = Stored [message_record (lit ''z'') (JStr (lit ''old''))], writable = True,
      room = True\<rparr>
   = \<lparr>returned = Inr [locale_message_record (lit ''a'') (JStr [55357]) (lit ''en-GB'') (lit ''m'') 256],
      produced = [locale_message_record (lit ''a'') (JStr [55357]) (lit ''en-GB'') (lit ''m'') 256],
      posts = 1,
      disk_after = \<lparr>content = Unloadable, writable = True, room = True\<rparr>,
      early_stop = False, write_error = Some UnicodeEncodeError\<rparr>"
  by code_simp

text \<open>
  C5. Against a transport that always fails, a dispatched call is meant to make exactly
  the maximum number of attempts before the item is recorded as an error, and it does
  where the sleep on a 429 returns (lemma \<open>retry_exhausts_all_attempts\<close>: three calls of
  \<open>requests.post\<close> for \<open>call_groq\<close>, four for \<open>call_groq_once\<close>). But
  \<open>call_groq_once\<close> sleeps inside the retried function for the time the 429 response
  gives, and \<open>time.sleep\<close> raises on a negative, NaN or infinite time; that exception
  is not a \<open>RequestException\<close>, so tenacity does not retry: against an endpoint that
  always answers 429 with \<open>retry-after: -1\<close> the item is recorded as an error after one
  call, where a \<open>retry-after\<close> of two seconds gives the four.
\<close>

theorem unsleepable_retry_after_ends_retries:
  "generate_bulk_rate_safe (sim_env (\<lambda>n. rate_limited (FloatText (Finite (- 1)))))
     [lit ''a''] 1 (PInt 1) (lit ''out.json'') 200
     \<lparr>content = Absent, writable = True, room = True\<rparr>
   = \<lparr>returned = Inr (lit ''out.json''),
      produced = [\<lparr>seed = lit ''a'', visitor_message = JNull, error = Some ValueError,
                   preview = None, locale_code = None, model = None, tokens_requested = None\<rparr>],
      posts = 1,
      disk_after =
        \<lparr>content = Stored [\<lparr>seed = lit ''a'', visitor_message = JNull, error = Some ValueError,
                   preview = None, locale_code = None, model = None, tokens_requested = None\<rparr>],
         writable = True, room = True\<rparr>,
      early_stop = False, write_error = None\<rparr>
   \<and> call_groq_once (\<lambda>n. rate_limited (FloatText (Finite (- 1)))) 0 = (Inl ValueError, 1)
   \<and> call_groq_once (\<lambda>n. rate_limited (FloatText NaN)) 0 = (Inl ValueError, 1)
   \<and> call_groq_once (\<lambda>n. rate_limited (FloatText PosInf)) 0 = (Inl OverflowError, 1)
   \<and> call_groq_once (\<lambda>n. rate_limited (FloatText (Finite 2))) 0
       = (Inl (RetryError (HTTPError 429)), 4)
   \<and> call_groq_once_max_attempts = 4"
  by code_simp



text \<open>
  C1. A remaining-token header at or below the threshold is meant to end the run after
  that request, with the records so far written out (the docstring of
  \<open>generate_bulk_rate_safe\<close>: stop if the header is at or below the threshold). The code
  returns early only in the handler of a body that is not JSON. Where the body parses, a low
  header makes the code sleep and go on (lemma \<open>parsed_bodies_never_stop_early\<close>): with
  two seeds, one repetition, threshold 200 and every response a 200 with a JSON body and
  the header at 100, the run makes both requests and writes both records. With the same
  header on a body that is not JSON it stops after the first request.
\<close>

theorem low_budget_on_parsed_body_does_not_stop:
  "generate_bulk_rate_safe
     (sim_env (\<lambda>n. http_response 200 (Inr (JObj [(lit ''output_text'', JStr (lit ''hi''))]))
                   (FloatText (Finite 100))))
     [lit ''a'', lit ''b''] 1 (PInt 1) (lit ''out.json'') 200 \<lparr>content = Absent, writable = True, room = True\<rparr>
   = \<lparr>returned = Inr (lit ''out.json''),
      produced = [message_record (lit ''a'') (JStr (lit ''hi'')),
                  message_record (lit ''b'') (JStr (lit ''hi''))],
      posts = 2,
      disk_after = \<lparr>content = Stored [message_record (lit ''a'') (JStr (lit ''hi'')),
                                         message_record (lit ''b'') (JStr (lit ''hi''))],
                    writable = True, room = True\<rparr>,
      early_stop = False, write_error = None\<rparr>
   \<and> generate_bulk_rate_safe
     (sim_env (\<lambda>n. http_response 200 (Inl InvalidJSONError) (FloatText (Finite 100))))
     [lit ''a'', lit ''b''] 1 (PInt 1) (lit ''out.json'') 200 \<lparr>content = Absent, writable = True, room = True\<rparr>
   = \<lparr>returned = Inr (lit ''out.json''),
      produced = [message_record (lit ''a'') (JStr (lit ''<body>''))],
      posts = 1,
      disk_after = \<lparr>content = Stored [message_record (lit ''a'') (JStr (lit ''<body>''))],
                    writable = True, room = True\<rparr>,
      early_stop = True, write_error = None\<rparr>"
  by code_simp

text \<open>
  C2. A run that ends normally and not by the early return has one record per seed and
  repetition, tagged with its seed (lemmas \<open>rate_safe_completed_run\<close> and
  \<open>locale_completed_run\<close>), a call that raises is recorded and the loop goes on
  (lemma \<open>failed_call_is_recorded\<close>), and such a run does end normally when the parse
  returns on every response (lemmas \<open>rate_safe_run_completes\<close> and
  \<open>locale_run_completes\<close>). But one response can end the whole batch with
  nothing written: the parse after the call is outside every \<open>try\<close>. In
  \<open>generate_bulk_rate_safe\<close> a 200 response whose JSON body is a list has no \<open>get\<close>;
  in \<open>generate_for_locale\<close> a \<open>message\<close> that is a string has none. Both raise
  \<open>AttributeError\<close> out of the function at the first of two seeds.
\<close>

theorem unexpected_body_aborts_batch:
  "generate_bulk_rate_safe
     (sim_env (\<lambda>n. http_response 200 (Inr (JArr [])) NoValue))
     [lit ''a'', lit ''b''] 1 (PInt 1) (lit ''out.json'') 200 \<lparr>content = Absent, writable = True, room = True\<rparr>
   = \<lparr>returned = Inl AttributeError, produced = [], posts = 1,
      disk_after = \<lparr>content = Absent, writable = True, room = True\<rparr>, early_stop = False, write_error = None\<rparr>
   \<and> generate_for_locale
     (sim_env (\<lambda>n. http_response 200
        (Inr (JObj [(lit ''choices'', JArr [JObj [(lit ''message'', JStr (lit ''hi''))]])])) NoValue))
     (lit ''en-GB'') [lit ''a'', lit ''b''] 1 (PInt 1) (lit ''m'') False
     \<lparr>content = Absent, writable = True, room = True\<rparr>
   = \<lparr>returned = Inl AttributeError, produced = [], posts = 1,
      disk_after = \<lparr>content = Absent, writable = True, room = True\<rparr>, early_stop = False, write_error = None\<rparr>"
  by code_simp

lemma write_merged_facts:
  "content d = Unloadable \<Longrightarrow> write_merged d out = (Some ValueError, d)"
  "content d = Stored existing \<Longrightarrow> write_merged d out = open_w_dump d (existing @ out)"
  "content d = Absent \<Longrightarrow> write_merged d out = open_w_dump d out"
  by (simp_all add: write_merged_def load_existing_def)

lemma open_w_dump_written:
  "fst (open_w_dump d recs) = None \<Longrightarrow> snd (open_w_dump d recs) = d\<lparr>content := Stored recs\<rparr>"
  by (simp add: open_w_dump_def split: if_splits)

text \<open>
  C3. A write of \<open>generate_for_locale\<close> that raises nothing leaves the existing records
  followed by the new ones when the file held a list, and the new records alone when the
  file was absent; a file that cannot be loaded as a list is left as it was. The write
  raises nothing when the file can be opened, every string of the records can be encoded
  and the device takes the text. \<open>generate_bulk_rate_safe\<close>, when it returns, leaves the
  records of the current run alone, whatever the file held.
\<close>

theorem output_file_after_run:
  "(\<forall>new existing.
      returned (generate_for_locale ev loc seeds per_seed kb mdl dry d) = Inr new
      \<and> write_error (generate_for_locale ev loc seeds per_seed kb mdl dry d) = None
      \<and> content d = Stored existing
      \<longrightarrow> content (disk_after (generate_for_locale ev loc seeds per_seed kb mdl dry d))
            = Stored (existing @ new))
   \<and> (\<forall>new.
      returned (generate_for_locale ev loc seeds per_seed kb mdl dry d) = Inr new
      \<and> write_error (generate_for_locale ev loc seeds per_seed kb mdl dry d) = None
      \<and> content d = Absent
      \<longrightarrow> content (disk_after (generate_for_locale ev loc seeds per_seed kb mdl dry d))
            = Stored new)
   \<and> (content d = Unloadable
      \<longrightarrow> disk_after (generate_for_locale ev loc seeds per_seed kb mdl dry d) = d)
   \<and> (\<forall>new existing.
      returned (generate_for_locale ev loc seeds per_seed kb mdl dry d) = Inr new
      \<and> content d = Stored existing \<and> writable d \<and> room d
      \<and> list_all encodable_record (existing @ new)
      \<longrightarrow> write_error (generate_for_locale ev loc seeds per_seed kb mdl dry d) = None)
   \<and> (\<forall>new.
      returned (generate_for_locale ev loc seeds per_seed kb mdl dry d) = Inr new
      \<and> content d = Absent \<and> writable d \<and> room d \<and> list_all encodable_record new
      \<longrightarrow> write_error (generate_for_locale ev loc seeds per_seed kb mdl dry d) = None)
   \<and> (\<forall>path.
      returned (generate_bulk_rate_safe ev seeds per_seed kb f th d) = Inr path
      \<longrightarrow> content (disk_after (generate_bulk_rate_safe ev seeds per_seed kb f th d))
            = Stored (produced (generate_bulk_rate_safe ev seeds per_seed kb f th d)))"
proof -
  from generate_for_locale_cases [of ev loc seeds per_seed kb mdl dry]
  consider (raised) e out p where
      "generate_for_locale ev loc seeds per_seed kb mdl dry d
        = \<lparr>returned = Inl e, produced = out, posts = p, disk_after = d, early_stop = False,
           write_error = None\<rparr>"
    | (wrote) out p where
      "generate_for_locale ev loc seeds per_seed kb mdl dry d
        = \<lparr>returned = Inr out, produced = out, posts = p, disk_after = snd (write_merged d out),
           early_stop = False, write_error = fst (write_merged d out)\<rparr>"
    by blast
  then have loc_part: "(\<forall>new existing.
      returned (generate_for_locale ev loc seeds per_seed kb mdl dry d) = Inr new
      \<and> write_error (generate_for_locale ev loc seeds per_seed kb mdl dry d) = None
      \<and> content d = Stored existing
      \<longrightarrow> content (disk_after (generate_for_locale ev loc seeds per_seed kb mdl dry d))
            = Stored (existing @ new))
   \<and> (\<forall>new.
      returned (generate_for_locale ev loc seeds per_seed kb mdl dry d) = Inr new
      \<and> write_error (generate_for_locale ev loc seeds per_seed kb mdl dry d) = None
      \<and> content d = Absent
      \<longrightarrow> content (disk_after (generate_for_locale ev loc seeds per_seed kb mdl dry d))
            = Stored new)
   \<and> (content d = Unloadable
      \<longrightarrow> disk_after (generate_for_locale ev loc seeds per_seed kb mdl dry d) = d)
   \<and> (\<forall>new existing.
      returned (generate_for_locale ev loc seeds per_seed kb mdl dry d) = Inr new
      \<and> content d = Stored existing \<and> writable d \<and> room d
      \<and> list_all encodable_record (existing @ new)
      \<longrightarrow> write_error (generate_for_locale ev loc seeds per_seed kb mdl dry d) = None)
   \<and> (\<forall>new.
      returned (generate_for_locale ev loc seeds per_seed kb mdl dry d) = Inr new
      \<and> content d = Absent \<and> writable d \<and> room d \<and> list_all encodable_record new
      \<longrightarrow> write_error (generate_for_locale ev loc seeds per_seed kb mdl dry d) = None)"
  proof cases
    case raised
    then show ?thesis by simp
  next
    case wrote
    show ?thesis
      unfolding wrote
      by (auto simp: write_merged_facts open_w_dump_written open_w_dump_succeeds
               simp del: list_all_append)
  qed
  have rate_part: "\<forall>path.
      returned (generate_bulk_rate_safe ev seeds per_seed kb f th d) = Inr path
      \<longrightarrow> content (disk_after (generate_bulk_rate_safe ev seeds per_seed kb f th d))
            = Stored (produced (generate_bulk_rate_safe ev seeds per_seed kb f th d))"
  proof -
    from generate_bulk_rate_safe_cases [of ev seeds per_seed kb f th]
    consider (raised) e out p where
        "generate_bulk_rate_safe ev seeds per_seed kb f th d
          = \<lparr>returned = Inl e, produced = out, posts = p, disk_after = d, early_stop = False,
             write_error = None\<rparr>"
      | (wrote) out p es where
        "generate_bulk_rate_safe ev seeds per_seed kb f th d
          = (case fst (open_w_dump d out) of
               Some e \<Rightarrow>
                 \<lparr>returned = Inl e, produced = out, posts = p,
                  disk_after = snd (open_w_dump d out), early_stop = es, write_error = Some e\<rparr>
             | None \<Rightarrow>
                 \<lparr>returned = Inr f, produced = out, posts = p,
                  disk_after = snd (open_w_dump d out), early_stop = es, write_error = None\<rparr>)"
      by blast
    then show ?thesis
    proof cases
      case raised
      then show ?thesis by simp
    next
      case wrote
      show ?thesis
      proof (cases "fst (open_w_dump d out)")
        case None
        with wrote show ?thesis by (simp add: open_w_dump_written)
      next
        case (Some e)
        with wrote show ?thesis by simp
      qed
    qed
  qed
  from loc_part rate_part show ?thesis by blast
qed

theorem output_file_after_run_witness:
  "returned (generate_for_locale
        (sim_env (\<lambda>n. http_response 200 (Inr (JObj [(lit ''output_text'', JStr (lit ''new''))])) NoValue))
        (lit ''en-GB'') [lit ''a''] 1 (PInt 1) (lit ''m'') False
        \<lparr>content = Stored [message_record (lit ''z'') (JStr (lit ''old''))], writable = True,
         room = True\<rparr>)
      = Inr [locale_message_record (lit ''a'') (JStr (lit ''new'')) (lit ''en-GB'') (lit ''m'') 256]
   \<and> write_error (generate_for_locale
        (sim_env (\<lambda>n. http_response 200 (Inr (JObj [(lit ''output_text'', JStr (lit ''new''))])) NoValue))
        (lit ''en-GB'') [lit ''a''] 1 (PInt 1) (lit ''m'') False
        \<lparr>content = Stored [message_record (lit ''z'') (JStr (lit ''old''))], writable = True,
         room = True\<rparr>)
      = None
   \<and> content (disk_after (generate_for_locale
        (sim_env (\<lambda>n. http_response 200 (Inr (JObj [(lit ''output_text'', JStr (lit ''new''))])) NoValue))
        (lit ''en-GB'') [lit ''a''] 1 (PInt 1) (lit ''m'') False
        \<lparr>content = Stored [message_record (lit ''z'') (JStr (lit ''old''))], writable = True,
         room = True\<rparr>))
      = Stored [message_record (lit ''z'') (JStr (lit ''old'')),
                locale_message_record (lit ''a'') (JStr (lit ''new'')) (lit ''en-GB'') (lit ''m'') 256]"
proof -
  have r: "returned (generate_for_locale
        (sim_env (\<lambda>n. http_response 200 (Inr (JObj [(lit ''output_text'', JStr (lit ''new''))])) NoValue))
        (lit ''en-GB'') [lit ''a''] 1 (PInt 1) (lit ''m'') False
        \<lparr>content = Stored [message_record (lit ''z'') (JStr (lit ''old''))], writable = True,
         room = True\<rparr>)
      = Inr [locale_message_record (lit ''a'') (JStr (lit ''new'')) (lit ''en-GB'') (lit ''m'') 256]"
    by code_simp
  have w: "write_error (generate_for_locale
        (sim_env (\<lambda>n. http_response 200 (Inr (JObj [(lit ''output_text'', JStr (lit ''new''))])) NoValue))
        (lit ''en-GB'') [lit ''a''] 1 (PInt 1) (lit ''m'') False
        \<lparr>content = Stored [message_record (lit ''z'') (JStr (lit ''old''))], writable = True,
         room = True\<rparr>)
      = None"
    by code_simp
  show ?thesis
    using output_file_after_run [
        of "sim_env (\<lambda>n. http_response 200 (Inr (JObj [(lit ''output_text'', JStr (lit ''new''))])) NoValue)"
        "lit ''en-GB''" "[lit ''a'']" 1 "PInt 1" "lit ''m''" False
        "\<lparr>content = Stored [message_record (lit ''z'') (JStr (lit ''old''))], writable = True,
          room = True\<rparr>"] r w
    by simp
qed

text \<open>
  The merge does not hold for every write: \<open>generate_bulk_rate_safe\<close> on a file that
  holds one record leaves the new record only.
\<close>

theorem rate_safe_write_overwrites:
  "content (disk_after (generate_bulk_rate_safe
      (sim_env (\<lambda>n. http_response 200 (Inr (JObj [(lit ''output_text'', JStr (lit ''new''))])) NoValue))
      [lit ''a''] 1 (PInt 1) (lit ''out.json'') 200
      \<lparr>content = Stored [message_record (lit ''z'') (JStr (lit ''old''))], writable = True, room = True\<rparr>))
   = Stored [message_record (lit ''a'') (JStr (lit ''new''))]
   \<and> Stored [message_record (lit ''a'') (JStr (lit ''new''))]
       \<noteq> Stored ([message_record (lit ''z'') (JStr (lit ''old''))]
                  @ [message_record (lit ''a'') (JStr (lit ''new''))])"
  by code_simp

text \<open>
  C6. Where the access of \<open>generate_for_locale\<close> to the output file raises, in the read,
  the merge or the write, the function still returns the whole list \<open>out\<close>, one record
  per seed and repetition, the same list it returns with any other state of the file. In
  \<open>generate_bulk_rate_safe\<close>, whose write is unguarded, the exception of the write leaves
  the function.
\<close>

theorem locale_write_failure_is_caught:
  assumes "write_error (generate_for_locale ev loc seeds per_seed kb mdl dry d) = Some e"
  shows "returned (generate_for_locale ev loc seeds per_seed kb mdl dry d)
           = Inr (produced (generate_for_locale ev loc seeds per_seed kb mdl dry d))
       \<and> map seed (produced (generate_for_locale ev loc seeds per_seed kb mdl dry d))
           = iterations seeds per_seed
       \<and> returned (generate_for_locale ev loc seeds per_seed kb mdl dry d')
           = Inr (produced (generate_for_locale ev loc seeds per_seed kb mdl dry d))
       \<and> (\<forall>e'. write_error (generate_bulk_rate_safe ev seeds per_seed kb f th d) = Some e'
            \<longrightarrow> returned (generate_bulk_rate_safe ev seeds per_seed kb f th d) = Inl e')"
proof -
  from generate_for_locale_cases [of ev loc seeds per_seed kb mdl dry]
  consider (raised) e0 out p where
      "\<forall>d. generate_for_locale ev loc seeds per_seed kb mdl dry d
        = \<lparr>returned = Inl e0, produced = out, posts = p, disk_after = d, early_stop = False,
           write_error = None\<rparr>"
    | (wrote) out p where "map seed out = iterations seeds per_seed"
      "\<forall>d. generate_for_locale ev loc seeds per_seed kb mdl dry d
        = \<lparr>returned = Inr out, produced = out, posts = p, disk_after = snd (write_merged d out),
           early_stop = False, write_error = fst (write_merged d out)\<rparr>"
    by blast
  then have a: "returned (generate_for_locale ev loc seeds per_seed kb mdl dry d)
           = Inr (produced (generate_for_locale ev loc seeds per_seed kb mdl dry d))
       \<and> map seed (produced (generate_for_locale ev loc seeds per_seed kb mdl dry d))
           = iterations seeds per_seed
       \<and> returned (generate_for_locale ev loc seeds per_seed kb mdl dry d')
           = Inr (produced (generate_for_locale ev loc seeds per_seed kb mdl dry d))"
  proof cases
    case raised
    with assms show ?thesis by simp
  next
    case wrote
    then show ?thesis by simp
  qed
  have b: "\<forall>e'. write_error (generate_bulk_rate_safe ev seeds per_seed kb f th d) = Some e'
            \<longrightarrow> returned (generate_bulk_rate_safe ev seeds per_seed kb f th d) = Inl e'"
  proof -
    from generate_bulk_rate_safe_cases [of ev seeds per_seed kb f th]
    consider (raised) e0 out p where
        "generate_bulk_rate_safe ev seeds per_seed kb f th d
          = \<lparr>returned = Inl e0, produced = out, posts = p, disk_after = d, early_stop = False,
             write_error = None\<rparr>"
      | (wrote) out p es where
        "generate_bulk_rate_safe ev seeds per_seed kb f th d
          = (case fst (open_w_dump d out) of
               Some e \<Rightarrow>
                 \<lparr>returned = Inl e, produced = out, posts = p,
                  disk_after = snd (open_w_dump d out), early_stop = es, write_error = Some e\<rparr>
             | None \<Rightarrow>
                 \<lparr>returned = Inr f, produced = out, posts = p,
                  disk_after = snd (open_w_dump d out), early_stop = es, write_error = None\<rparr>)"
      by blast
    then show ?thesis
    proof cases
      case raised
      then show ?thesis by simp
    next
      case wrote
      show ?thesis
      proof (cases "fst (open_w_dump d out)")
        case None
        with wrote show ?thesis by simp
      next
        case (Some e1)
        with wrote show ?thesis by simp
      qed
    qed
  qed
  from a b show ?thesis by blast
qed

theorem locale_write_failure_is_caught_witness:
  "write_error (generate_for_locale
        (sim_env (\<lambda>n. http_response 200 (Inr (JObj [(lit ''output_text'', JStr (lit ''new''))])) NoValue))
        (lit ''en-GB'') [lit ''a''] 1 (PInt 1) (lit ''m'') False
        \<lparr>content = Absent, writable = False, room = True\<rparr>)
      = Some OSError
   \<and> generate_for_locale
        (sim_env (\<lambda>n. http_response 200 (Inr (JObj [(lit ''output_text'', JStr (lit ''new''))])) NoValue))
        (lit ''en-GB'') [lit ''a''] 1 (PInt 1) (lit ''m'') False
        \<lparr>content = Absent, writable = False, room = True\<rparr>
      = \<lparr>returned = Inr [locale_message_record (lit ''a'') (JStr (lit ''new'')) (lit ''en-GB'') (lit ''m'') 256],
         produced = [locale_message_record (lit ''a'') (JStr (lit ''new'')) (lit ''en-GB'') (lit ''m'') 256],
         posts = 1, disk_after = \<lparr>content = Absent, writable = False, room = True\<rparr>,
         early_stop = False, write_error = Some OSError\<rparr>
   \<and> returned (generate_for_locale
        (sim_env (\<lambda>n. http_response 200 (Inr (JObj [(lit ''output_text'', JStr (lit ''new''))])) NoValue))
        (lit ''en-GB'') [lit ''a''] 1 (PInt 1) (lit ''m'') False
        \<lparr>content = Unloadable, writable = True, room = True\<rparr>)
      = Inr [locale_message_record (lit ''a'') (JStr (lit ''new'')) (lit ''en-GB'') (lit ''m'') 256]"
proof -
  have w: "write_error (generate_for_locale
        (sim_env (\<lambda>n. http_response 200 (Inr (JObj [(lit ''output_text'', JStr (lit ''new''))])) NoValue))
        (lit ''en-GB'') [lit ''a''] 1 (PInt 1) (lit ''m'') False
        \<lparr>content = Absent, writable = False, room = True\<rparr>)
      = Some OSError"
    by code_simp
  have v: "generate_for_locale
        (sim_env (\<lambda>n. http_response 200 (Inr (JObj [(lit ''output_text'', JStr (lit ''new''))])) NoValue))
        (lit ''en-GB'') [lit ''a''] 1 (PInt 1) (lit ''m'') False
        \<lparr>content = Absent, writable = False, room = True\<rparr>
      = \<lparr>returned = Inr [locale_message_record (lit ''a'') (JStr (lit ''new'')) (lit ''en-GB'') (lit ''m'') 256],
         produced = [locale_message_record (lit ''a'') (JStr (lit ''new'')) (lit ''en-GB'') (lit ''m'') 256],
         posts = 1, disk_after = \<lparr>content = Absent, writable = False, room = True\<rparr>,
         early_stop = False, write_error = Some OSError\<rparr>"
    by code_simp
  show ?thesis
    using locale_write_failure_is_caught [OF w,
        of "\<lparr>content = Unloadable, writable = True, room = True\<rparr>"] w v
    by simp
qed

text \<open>
  A failing write does raise out of \<open>generate_bulk_rate_safe\<close>, after the record was
  produced.
\<close>

theorem rate_safe_write_failure_raises:
  "returned (generate_bulk_rate_safe
      (sim_env (\<lambda>n. http_response 200 (Inr (JObj [(lit ''output_text'', JStr (lit ''new''))])) NoValue))
      [lit ''a''] 1 (PInt 1) (lit ''out.json'') 200 \<lparr>content = Absent, writable = False, room = True\<rparr>)
   = Inl OSError
   \<and> produced (generate_bulk_rate_safe
      (sim_env (\<lambda>n. http_response 200 (Inr (JObj [(lit ''output_text'', JStr (lit ''new''))])) NoValue))
      [lit ''a''] 1 (PInt 1) (lit ''out.json'') 200 \<lparr>content = Absent, writable = False, room = True\<rparr>)
   = [message_record (lit ''a'') (JStr (lit ''new''))]"
  by code_simp

text \<open>
  C7. With the API key missing or empty, GenerateLocaleTestData.py run as a script ends at
  its import with \<open>EnvironmentError\<close>: no record, no call of \<open>requests.post\<close>, the
  output file untouched.
\<close>

theorem missing_key_is_fatal_at_import:
  assumes "GROQ_API_KEY cfg = None \<or> GROQ_API_KEY cfg = Some []"
  shows "main_GenerateLocaleTestData cfg ev loc seeds per_seed kb mdl dry d
           = \<lparr>returned = Inl EnvironmentError, produced = [], posts = 0, disk_after = d,
              early_stop = False, write_error = None\<rparr>"
  using assms
  by (auto simp: main_GenerateLocaleTestData_def import_GenerateLocaleTestData_def)

theorem missing_key_is_fatal_at_import_witness:
  "(GROQ_API_KEY \<lparr>GROQ_API_KEY = None, GROQ_API_URL = Some (lit ''https://api'')\<rparr> = None
    \<or> GROQ_API_KEY \<lparr>GROQ_API_KEY = None, GROQ_API_URL = Some (lit ''https://api'')\<rparr> = Some [])
   \<and> main_GenerateLocaleTestData \<lparr>GROQ_API_KEY = None, GROQ_API_URL = Some (lit ''https://api'')\<rparr>
        (sim_env (\<lambda>n. http_response 200 (Inr (JObj [(lit ''output_text'', JStr (lit ''hi''))])) NoValue))
        (lit ''en-GB'') [lit ''a''] 1 (PInt 1) (lit ''m'') False \<lparr>content = Absent, writable = True, room = True\<rparr>
      = \<lparr>returned = Inl EnvironmentError, produced = [], posts = 0,
         disk_after = \<lparr>content = Absent, writable = True, room = True\<rparr>, early_stop = False, write_error = None\<rparr>"
proof -
  have h: "GROQ_API_KEY \<lparr>GROQ_API_KEY = None, GROQ_API_URL = Some (lit ''https://api'')\<rparr> = None
    \<or> GROQ_API_KEY \<lparr>GROQ_API_KEY = None, GROQ_API_URL = Some (lit ''https://api'')\<rparr> = Some []"
    by simp
  show ?thesis
    using h missing_key_is_fatal_at_import [OF h] by simp
qed

text \<open>
  Neither script checks the URL, and TestcaseTokens.py does not check the key. Without the
  URL, GenerateLocaleTestData.py is imported and runs to its end, every item an error
  record. Without the key, runbulk.py sends all its requests: against an endpoint that
  answers 401, four attempts for each of its hundred items.
\<close>

theorem missing_configuration_is_not_fatal:
  "import_GenerateLocaleTestData \<lparr>GROQ_API_KEY = Some (lit ''key''), GROQ_API_URL = None\<rparr> = Inr ()
   \<and> returned (main_GenerateLocaleTestData \<lparr>GROQ_API_KEY = Some (lit ''key''), GROQ_API_URL = None\<rparr>
        (sim_env (\<lambda>n. http_response 200 (Inr (JObj [(lit ''output_text'', JStr (lit ''hi''))])) NoValue))
        (lit ''en-GB'') [lit ''a''] 1 (PInt 1) (lit ''m'') False \<lparr>content = Absent, writable = True, room = True\<rparr>)
     = Inr [locale_error_record (lit ''a'') (RetryError RequestException) (lit ''en-GB'')]
   \<and> import_TestcaseTokens \<lparr>GROQ_API_KEY = None, GROQ_API_URL = Some (lit ''https://api'')\<rparr> = Inr ()
   \<and> posts (runbulk \<lparr>GROQ_API_KEY = None, GROQ_API_URL = Some (lit ''https://api'')\<rparr>
        (sim_env (\<lambda>n. http_response 401 (Inr (JObj [])) NoValue))
        \<lparr>content = Absent, writable = True, room = True\<rparr>) = 400"
proof -
  have a: "import_GenerateLocaleTestData \<lparr>GROQ_API_KEY = Some (lit ''key''), GROQ_API_URL = None\<rparr> = Inr ()
   \<and> returned (main_GenerateLocaleTestData \<lparr>GROQ_API_KEY = Some (lit ''key''), GROQ_API_URL = None\<rparr>
        (sim_env (\<lambda>n. http_response 200 (Inr (JObj [(lit ''output_text'', JStr (lit ''hi''))])) NoValue))
        (lit ''en-GB'') [lit ''a''] 1 (PInt 1) (lit ''m'') False \<lparr>content = Absent, writable = True, room = True\<rparr>)
     = Inr [locale_error_record (lit ''a'') (RetryError RequestException) (lit ''en-GB'')]
   \<and> import_TestcaseTokens \<lparr>GROQ_API_KEY = None, GROQ_API_URL = Some (lit ''https://api'')\<rparr> = Inr ()"
    by code_simp
  define ev where "ev = (sim_env (\<lambda>n. http_response 401 (Inr (JObj [])) NoValue))
      \<lparr>transport := requests_post \<lparr>GROQ_API_KEY = None, GROQ_API_URL = Some (lit ''https://api'')\<rparr>
          (transport (sim_env (\<lambda>n. http_response 401 (Inr (JObj [])) NoValue)))\<rparr>"
  have fails: "\<forall>q. post_fails (transport ev q) \<and> sleep_returns (transport ev q)"
    by (simp add: ev_def sim_env_def requests_post_def http_response_def post_fails_def
          sleep_returns_def)
  from rate_safe_loop_all_fail [OF fails, of 200 "iterations runbulk_seeds 25" "[]" 0]
  obtain new where
    "for_each (rate_safe_iteration ev 200) (iterations runbulk_seeds 25) ([], 0)
       = (Proceed, new, 4 * length (iterations runbulk_seeds 25))"
    by auto
  moreover have "length (iterations runbulk_seeds 25) = 100"
    by (simp add: iterations_length runbulk_seeds_def)
  ultimately have "posts (generate_bulk_rate_safe ev runbulk_seeds 25 (PInt 1)
      (lit ''generated_messages.json'') 200 \<lparr>content = Absent, writable = True, room = True\<rparr>) = 400"
    by (simp add: generate_bulk_rate_safe_def tokens_for_kb_rate_def split: prod.splits option.splits)
  then have b: "posts (runbulk \<lparr>GROQ_API_KEY = None, GROQ_API_URL = Some (lit ''https://api'')\<rparr>
        (sim_env (\<lambda>n. http_response 401 (Inr (JObj [])) NoValue))
        \<lparr>content = Absent, writable = True, room = True\<rparr>) = 400"
    by (simp add: runbulk_def import_TestcaseTokens_def ev_def)
  from a b show ?thesis by blast
qed

end
